theory Spec2Isabelle
  imports Main
begin

section \<open>The agent session client (hooks/useAgentSession.js)\<close>

text \<open>
  The hook \<^verbatim>\<open>useAgentSession\<close> keeps a WebSocket to the agent backend, dispatches the
  frames it receives into the projections of its state (chat, terminal log, file list,
  file tree, active file, status, error) and reconnects after an abnormal close.
  The model below follows the source callback by callback. React state and refs are the
  fields of one record; every callback is a function from the state to the new state.
\<close>

subsection \<open>JavaScript values\<close>

text \<open>
  A value read from a frame is whatever \<^verbatim>\<open>JSON.parse\<close> produced, and a property that is
  missing reads as \<^verbatim>\<open>undefined\<close>. Strings are \<^typ>\<open>string\<close>; a number is kept as the text
  that \<^verbatim>\<open>String(n)\<close> gives (two numbers are the same value for \<^verbatim>\<open>includes\<close> exactly when
  these texts agree, and a number is falsy exactly when the text is \<^verbatim>\<open>0\<close> or \<^verbatim>\<open>NaN\<close>).
  An object is the table of its own properties.
\<close>

datatype jsval =
    JUndefined
  | JNull
  | JBool bool
  | JNum string
  | JStr string
  | JArr "jsval list"
  | JObj "(string \<times> jsval) list"

fun truthy :: "jsval \<Rightarrow> bool" where
  "truthy JUndefined = False"
| "truthy JNull = False"
| "truthy (JBool b) = b"
| "truthy (JNum r) = (r \<noteq> ''0'' \<and> r \<noteq> ''NaN'')"
| "truthy (JStr s) = (s \<noteq> [])"
| "truthy (JArr xs) = True"
| "truthy (JObj kvs) = True"

text \<open>\<^verbatim>\<open>a || b\<close>\<close>

definition js_or :: "jsval \<Rightarrow> jsval \<Rightarrow> jsval" where
  "js_or a b = (if truthy a then a else b)"

definition nullish :: "jsval \<Rightarrow> bool" where
  "nullish v = (v = JUndefined \<or> v = JNull)"

text \<open>
  \<^verbatim>\<open>v.k\<close> for a value that is neither \<^verbatim>\<open>null\<close> nor \<^verbatim>\<open>undefined\<close> and a key \<open>k\<close> that no
  built-in prototype defines (every key the hook reads except \<^verbatim>\<open>length\<close>, \<^verbatim>\<open>join\<close> and
  \<^verbatim>\<open>includes\<close>, which have functions of their own below). Reading a property of \<^verbatim>\<open>null\<close>
  or \<^verbatim>\<open>undefined\<close> throws; the callers test \<^const>\<open>nullish\<close> first.
\<close>

fun js_get :: "jsval \<Rightarrow> string \<Rightarrow> jsval" where
  "js_get (JObj kvs) k = (case map_of kvs k of Some v \<Rightarrow> v | None \<Rightarrow> JUndefined)"
| "js_get _ k = JUndefined"

text \<open>\<^verbatim>\<open>Array.isArray(v)\<close> and the elements of an array.\<close>

fun isArray :: "jsval \<Rightarrow> bool" where
  "isArray (JArr xs) = True"
| "isArray _ = False"

fun elems :: "jsval \<Rightarrow> jsval list" where
  "elems (JArr xs) = xs"
| "elems _ = []"

text \<open>
  \<^verbatim>\<open>c?.length\<close>: \<^verbatim>\<open>undefined\<close> for \<^verbatim>\<open>null\<close> and \<^verbatim>\<open>undefined\<close>, the length of a string or
  an array, the own property \<^verbatim>\<open>length\<close> of an object. Only its truthiness is used.
\<close>

fun length_truthy :: "jsval \<Rightarrow> bool" where
  "length_truthy (JStr s) = (s \<noteq> [])"
| "length_truthy (JArr xs) = (xs \<noteq> [])"
| "length_truthy (JObj kvs) = truthy (js_get (JObj kvs) ''length'')"
| "length_truthy _ = False"

text \<open>Decimal text of a natural number, as a template literal prints a count.\<close>

fun show_nat :: "nat \<Rightarrow> string" where
  "show_nat n =
     (if n < 10 then [''0123456789'' ! n]
      else show_nat (n div 10) @ [''0123456789'' ! (n mod 10)])"

declare show_nat.simps [simp del]

text \<open>
  \<^verbatim>\<open>String(v)\<close>, the conversion a template literal applies. \<open>None\<close> is the TypeError
  that the conversion throws for an object whose own property \<^verbatim>\<open>toString\<close> hides the
  inherited method (a value read from JSON is never callable). An array prints as its
  \<^verbatim>\<open>join(",")\<close>, where \<^verbatim>\<open>null\<close> and \<^verbatim>\<open>undefined\<close> elements print as nothing.
\<close>

fun to_string :: "jsval \<Rightarrow> string option"
  and join_elems :: "string \<Rightarrow> jsval list \<Rightarrow> string option" where
  "to_string JUndefined = Some ''undefined''"
| "to_string JNull = Some ''null''"
| "to_string (JBool b) = Some (if b then ''true'' else ''false'')"
| "to_string (JNum r) = Some r"
| "to_string (JStr s) = Some s"
| "to_string (JArr xs) = join_elems '','' xs"
| "to_string (JObj kvs) =
     (if map_of kvs ''toString'' \<noteq> None then None else Some ''[object Object]'')"
| "join_elems sep [] = Some []"
| "join_elems sep (x # xs) =
     (case (if x = JUndefined \<or> x = JNull then Some [] else to_string x) of
        None \<Rightarrow> None
      | Some s \<Rightarrow>
          if xs = [] then Some s
          else (case join_elems sep xs of None \<Rightarrow> None | Some r \<Rightarrow> Some (s @ sep @ r)))"

text \<open>
  \<^verbatim>\<open>v?.join(sep)\<close>: \<^verbatim>\<open>undefined\<close> when \<open>v\<close> is \<^verbatim>\<open>null\<close> or \<^verbatim>\<open>undefined\<close>; the joined
  text for an array; a TypeError (\<open>None\<close>) otherwise, since no other JSON value has a
  callable \<^verbatim>\<open>join\<close>.
\<close>

fun join_call :: "jsval \<Rightarrow> string \<Rightarrow> jsval option" where
  "join_call JUndefined sep = Some JUndefined"
| "join_call JNull sep = Some JUndefined"
| "join_call (JArr xs) sep = map_option JStr (join_elems sep xs)"
| "join_call _ sep = None"

text \<open>
  The comparison of \<^verbatim>\<open>Array.prototype.includes\<close> (SameValueZero). Primitive values compare
  by value. Objects and arrays compare by identity, and a value parsed from the current
  frame is never identical to one stored from an earlier frame, so they never match.
\<close>

fun same_value_zero :: "jsval \<Rightarrow> jsval \<Rightarrow> bool" where
  "same_value_zero JUndefined JUndefined = True"
| "same_value_zero JNull JNull = True"
| "same_value_zero (JBool a) (JBool b) = (a = b)"
| "same_value_zero (JNum a) (JNum b) = (a = b)"
| "same_value_zero (JStr a) (JStr b) = (a = b)"
| "same_value_zero _ _ = False"

definition arr_includes :: "jsval list \<Rightarrow> jsval \<Rightarrow> bool" where
  "arr_includes xs v = list_ex (\<lambda>x. same_value_zero x v) xs"

text \<open>\<^verbatim>\<open>s.includes(sub)\<close> on strings: \<open>sub\<close> occurs in \<open>s\<close> as a contiguous run.\<close>

fun str_includes :: "string \<Rightarrow> string \<Rightarrow> bool" where
  "str_includes [] sub = (sub = [])"
| "str_includes (c # cs) sub = (take (length sub) (c # cs) = sub \<or> str_includes cs sub)"

text \<open>
  \<^verbatim>\<open>v.includes(sub)\<close> for a truthy \<open>v\<close>: the substring test on a string, the element
  test on an array, a TypeError (\<open>None\<close>) on a number, a boolean or an object.
\<close>

fun includes_call :: "jsval \<Rightarrow> string \<Rightarrow> bool option" where
  "includes_call (JStr s) sub = Some (str_includes s sub)"
| "includes_call (JArr xs) sub = Some (arr_includes xs (JStr sub))"
| "includes_call _ sub = None"

subsection \<open>Counting the items of a tree\<close>

text \<open>
  \<^verbatim>\<open>_countFiles(tree)\<close>: one for every node, plus the count of its \<^verbatim>\<open>children\<close> when
  \<^verbatim>\<open>node.children?.length\<close> is truthy. \<open>None\<close> is a TypeError: a node that is \<^verbatim>\<open>null\<close>
  (its \<^verbatim>\<open>children\<close> cannot be read), or children that have a truthy \<^verbatim>\<open>length\<close> but
  cannot be iterated (an object). Iterating a string visits its characters, which have
  no children.
\<close>

lemma size_map_of:
  "map_of kvs k = Some v \<Longrightarrow> size v < Suc (size_list (size_prod (\<lambda>_. 0) size) kvs)"
  by (induction kvs) (auto split: if_splits)

lemma size_prop: "length_truthy (js_get node k) \<Longrightarrow> size (js_get node k) < size node"
  by (cases node) (auto split: option.splits dest: size_map_of)

function countFiles :: "jsval \<Rightarrow> nat option"
  and countNodes :: "jsval list \<Rightarrow> nat option" where
  "countFiles v =
     (case v of JArr ns \<Rightarrow> countNodes ns | JStr s \<Rightarrow> Some (length s) | _ \<Rightarrow> None)"
| "countNodes [] = Some 0"
| "countNodes (node # rest) =
     (if nullish node then None
      else (case (if length_truthy (js_get node ''children'')
                  then countFiles (js_get node ''children'') else Some 0) of
              None \<Rightarrow> None
            | Some k \<Rightarrow>
                (case countNodes rest of None \<Rightarrow> None | Some m \<Rightarrow> Some (1 + k + m))))"
  by pat_completeness auto
termination
proof (relation "measure (\<lambda>x. case x of Inl v \<Rightarrow> 2 * size v | Inr ns \<Rightarrow> 2 * size_list size ns + 1)")
  show "wf (measure (\<lambda>x. case x of Inl v \<Rightarrow> 2 * size v | Inr ns \<Rightarrow> 2 * size_list size ns + 1))"
    by simp
next
  fix v ns
  assume "v = JArr ns"
  then show "(Inr ns, Inl v) \<in> measure (\<lambda>x. case x of Inl v \<Rightarrow> 2 * size v | Inr ns \<Rightarrow> 2 * size_list size ns + 1)"
    by simp
next
  fix node :: jsval and rest :: "jsval list"
  assume "\<not> nullish node" "length_truthy (js_get node ''children'')"
  then have "size (js_get node ''children'') < size node"
    by (simp add: size_prop)
  then show "(Inl (js_get node ''children''), Inr (node # rest)) \<in> measure (\<lambda>x. case x of Inl v \<Rightarrow> 2 * size v | Inr ns \<Rightarrow> 2 * size_list size ns + 1)"
    by simp
next
  fix node :: jsval and rest :: "jsval list" and x2
  show "(Inr rest, Inr (node # rest)) \<in> measure (\<lambda>x. case x of Inl v \<Rightarrow> 2 * size v | Inr ns \<Rightarrow> 2 * size_list size ns + 1)"
    by simp
qed

declare countFiles.simps [simp del]

subsection \<open>The texts of the log lines\<close>

text \<open>
  The glyphs that open the log lines are outside ASCII; each is given by its UTF-8 bytes.
\<close>

definition glyph_folder :: string where
  "glyph_folder = [CHR 0xF0, CHR 0x9F, CHR 0x93, CHR 0x81]"

definition glyph_memo :: string where
  "glyph_memo = [CHR 0xF0, CHR 0x9F, CHR 0x93, CHR 0x9D]"

definition glyph_check :: string where
  "glyph_check = [CHR 0xE2, CHR 0x9C, CHR 0x85]"

definition glyph_warning :: string where
  "glyph_warning = [CHR 0xE2, CHR 0x9A, CHR 0xA0, CHR 0xEF, CHR 0xB8, CHR 0x8F]"

definition glyph_cross :: string where
  "glyph_cross = [CHR 0xE2, CHR 0x9D, CHR 0x8C]"

definition glyph_plug :: string where
  "glyph_plug = [CHR 0xF0, CHR 0x9F, CHR 0x94, CHR 0x8C]"

definition glyph_green :: string where
  "glyph_green = [CHR 0xF0, CHR 0x9F, CHR 0x9F, CHR 0xA2]"

definition glyph_envelope :: string where
  "glyph_envelope = [CHR 0xF0, CHR 0x9F, CHR 0x93, CHR 0xA8]"

definition glyph_red :: string where
  "glyph_red = [CHR 0xF0, CHR 0x9F, CHR 0x94, CHR 0xB4]"

definition glyph_cycle :: string where
  "glyph_cycle = [CHR 0xF0, CHR 0x9F, CHR 0x94, CHR 0x84]"

definition glyph_stop :: string where
  "glyph_stop = [CHR 0xF0, CHR 0x9F, CHR 0x9B, CHR 0x91]"

definition glyph_ellipsis :: string where
  "glyph_ellipsis = [CHR 0xE2, CHR 0x80, CHR 0xA6]"

definition glyph_arrow :: string where
  "glyph_arrow = [CHR 0xE2, CHR 0x86, CHR 0x92]"

definition glyph_dash :: string where
  "glyph_dash = [CHR 0xE2, CHR 0x80, CHR 0x94]"

subsection \<open>The state of the hook\<close>

datatype status = Idle | Connecting | Connected | Errored

datatype kind = User | Agent | System

text \<open>
  An entry of the chat or of the terminal log. The source gives every entry the id
  \<^verbatim>\<open>evt_<time>_<counter>\<close> and a time stamp; the clock is not part of the model and the
  id is kept as its counter. The content is whatever value the caller passed.
\<close>

record chat_message =
  msg_id :: nat
  msg_type :: kind
  msg_content :: jsval

record log_entry =
  log_id :: nat
  log_content :: jsval

record active_file =
  af_path :: string
  af_content :: jsval
  af_loading :: bool

datatype ready_state = CONNECTING | OPEN | CLOSING | CLOSED

text \<open>
  A WebSocket the hook has created: its URL, its \<^verbatim>\<open>readyState\<close>, the frames passed to
  \<^verbatim>\<open>send\<close> so far, and the \<^verbatim>\<open>initialTask\<close> its callbacks have captured (\<open>None\<close> when
  \<^verbatim>\<open>connect\<close> was called without a task).
\<close>

record socket =
  sock_url :: string
  readyState :: ready_state
  sent :: "string list"
  initialTask :: "string option"

text \<open>
  \<open>wsRef\<close> names the current socket by its position in \<open>sockets\<close>; \<open>heartbeatRef\<close> says
  whether the keep-alive interval is running; \<open>timers\<close> are the pending \<^verbatim>\<open>setTimeout\<close>
  calls of the reconnect path, each with its delay in milliseconds and the task it will
  pass to \<^verbatim>\<open>connect\<close>.
\<close>

record state =
  status :: status
  messages :: "chat_message list"
  terminalLogs :: "log_entry list"
  files :: "jsval list"
  fileTree :: "jsval list"
  activeFile :: "active_file option"
  error :: jsval
  wsRef :: "nat option"
  heartbeatRef :: bool
  reconnectCount :: nat
  idCounter :: nat
  sessionIdRef :: jsval
  sockets :: "socket list"
  timers :: "(nat \<times> string option) list"

definition initial_state :: state where
  "initial_state =
     \<lparr>status = Idle, messages = [], terminalLogs = [], files = [], fileTree = [],
      activeFile = None, error = JNull, wsRef = None, heartbeatRef = False,
      reconnectCount = 0, idCounter = 0, sessionIdRef = JNull, sockets = [], timers = []\<rparr>"

text \<open>
  What the hook is given: its arguments \<open>token\<close> and \<open>projectId\<close>, the configured
  \<open>WS_BASE\<close>, whether \<^verbatim>\<open>window\<close> exists and what \<^verbatim>\<open>sessionStorage\<close> holds under
  \<^verbatim>\<open>lucid_model_provider\<close>, and the functions of the JavaScript host: \<^verbatim>\<open>JSON.parse\<close>
  (\<open>None\<close> when it throws), \<^verbatim>\<open>JSON.stringify\<close>, \<^verbatim>\<open>String.prototype.trim\<close>, and the
  message text of a TypeError that the engine raises.
\<close>

record env =
  token :: string
  projectId :: string
  WS_BASE :: string
  has_window :: bool
  stored_model_provider :: "string option"
  JSON_parse :: "string \<Rightarrow> jsval option"
  JSON_stringify :: "jsval \<Rightarrow> string"
  trim :: "string \<Rightarrow> string"
  type_error_message :: string

definition MAX_RECONNECTS :: nat where
  "MAX_RECONNECTS = 3"

definition pushMessage :: "kind \<Rightarrow> jsval \<Rightarrow> state \<Rightarrow> state" where
  "pushMessage ty content st =
     st\<lparr>idCounter := idCounter st + 1,
        messages := messages st @
          [\<lparr>msg_id = idCounter st + 1, msg_type = ty, msg_content = content\<rparr>]\<rparr>"

definition pushLog :: "jsval \<Rightarrow> state \<Rightarrow> state" where
  "pushLog content st =
     st\<lparr>idCounter := idCounter st + 1,
        terminalLogs := terminalLogs st @
          [\<lparr>log_id = idCounter st + 1, log_content = content\<rparr>]\<rparr>"

subsection \<open>The event dispatcher\<close>

text \<open>
  A callback either returns or lets a TypeError escape; in both cases the updates it
  made before are kept, so both carry the state.
\<close>

datatype outcome = Returns state | Throws state

fun state_of :: "outcome \<Rightarrow> state" where
  "state_of (Returns st) = st"
| "state_of (Throws st) = st"

fun throws :: "outcome \<Rightarrow> bool" where
  "throws (Returns st) = False"
| "throws (Throws st) = True"

text \<open>\<^verbatim>\<open>case 'log': case 'observation':\<close>\<close>

definition on_log :: "env \<Rightarrow> jsval \<Rightarrow> state \<Rightarrow> outcome" where
  "on_log env msg st =
     (let text = js_or (js_get msg ''content'')
                   (js_or (js_get msg ''message'') (JStr (JSON_stringify env msg)));
          st1 = pushLog text st
      in if js_get msg ''event'' = JStr ''agent_message''
            \<or> js_get msg ''event'' = JStr ''AgentMessageAction''
         then Returns (pushMessage Agent (js_get msg ''content'') st1)
         else Returns st1)"

text \<open>\<^verbatim>\<open>case 'message':\<close>\<close>

definition on_message :: "jsval \<Rightarrow> state \<Rightarrow> outcome" where
  "on_message msg st = Returns (pushMessage Agent (js_or (js_get msg ''content'') (JStr [])) st)"

text \<open>\<^verbatim>\<open>case 'file_tree':\<close>\<close>

definition on_file_tree :: "jsval \<Rightarrow> state \<Rightarrow> outcome" where
  "on_file_tree msg st =
     (if isArray (js_get msg ''tree'')
      then (let st1 = st\<lparr>fileTree := elems (js_get msg ''tree'')\<rparr>
            in case countFiles (js_get msg ''tree'') of
                 None \<Rightarrow> Throws st1
               | Some n \<Rightarrow>
                   Returns (pushLog (JStr (glyph_folder @ '' File tree updated (''
                                            @ show_nat n @ '' items)'')) st1))
      else Returns st)"

text \<open>
  \<^verbatim>\<open>case 'file_change':\<close> the label of the log line is
  \<^verbatim>\<open>msg.path || msg.files?.join(', ') || 'unknown'\<close>.
\<close>

definition change_label :: "jsval \<Rightarrow> jsval option" where
  "change_label msg =
     (if truthy (js_get msg ''path'') then Some (js_get msg ''path'')
      else (case join_call (js_get msg ''files'') '', '' of
              None \<Rightarrow> None
            | Some j \<Rightarrow> Some (js_or j (JStr ''unknown''))))"

definition on_file_change :: "jsval \<Rightarrow> state \<Rightarrow> outcome" where
  "on_file_change msg st =
     (let st1 =
            (if isArray (js_get msg ''files'')
             then st\<lparr>files := elems (js_get msg ''files'')\<rparr>
             else if truthy (js_get msg ''path'')
             then st\<lparr>files := (if arr_includes (files st) (js_get msg ''path'')
                                then files st
                                else files st @ [js_get msg ''path''])\<rparr>
             else st)
      in case change_label msg of
           None \<Rightarrow> Throws st1
         | Some l \<Rightarrow>
             (case to_string l of
                None \<Rightarrow> Throws st1
              | Some s \<Rightarrow> Returns (pushLog (JStr (glyph_memo @ '' File changed: '' @ s)) st1)))"

text \<open>\<^verbatim>\<open>case 'agent_event':\<close>\<close>

definition on_agent_event :: "jsval \<Rightarrow> state \<Rightarrow> outcome" where
  "on_agent_event msg st =
     (let content = js_or (js_get msg ''content'') (JStr []);
          eventType = js_or (js_get msg ''eventType'') (js_or (js_get msg ''event'') (JStr []))
      in case includes_call eventType ''Message'' of
           None \<Rightarrow> Throws st
         | Some is_message \<Rightarrow>
             (case (if is_message then Some True else includes_call eventType ''Think'') of
                None \<Rightarrow> Throws st
              | Some to_chat \<Rightarrow>
                  (let st1 = (if to_chat then pushMessage Agent content st else st)
                   in case (if truthy (js_get msg ''command'')
                            then map_option
                                   (\<lambda>c. pushLog (JStr (''$ '' @ c)) st1)
                                   (to_string (js_get msg ''command''))
                            else Some st1) of
                        None \<Rightarrow> Throws st1
                      | Some st2 \<Rightarrow>
                          (let st3 = (if truthy content then pushLog content st2 else st2)
                           in Returns
                                (if truthy (js_get msg ''fileTree'') \<and> isArray (js_get msg ''fileTree'')
                                 then st3\<lparr>files := elems (js_get msg ''fileTree'')\<rparr>
                                 else st3)))))"

text \<open>\<^verbatim>\<open>case 'status':\<close>\<close>

definition on_status :: "jsval \<Rightarrow> state \<Rightarrow> outcome" where
  "on_status msg st =
     (case to_string (js_get msg ''status'') of
        None \<Rightarrow> Throws st
      | Some s \<Rightarrow>
          (case to_string (js_or (js_get msg ''message'') (JStr [])) of
             None \<Rightarrow> Throws st
           | Some m \<Rightarrow>
               (let st1 = pushLog (JStr (''['' @ s @ ''] '' @ m)) st;
                    st2 = (if truthy (js_get msg ''sessionId'')
                           then st1\<lparr>sessionIdRef := js_get msg ''sessionId''\<rparr>
                           else st1)
                in if js_get msg ''status'' = JStr ''ready''
                      \<or> js_get msg ''status'' = JStr ''mock_mode''
                   then Returns
                          (pushMessage System
                             (js_or (js_get msg ''message'') (JStr ''Agent is ready.''))
                             (st2\<lparr>status := Connected\<rparr>))
                   else Returns st2)))"

text \<open>\<^verbatim>\<open>case 'complete':\<close>\<close>

definition on_complete :: "state \<Rightarrow> outcome" where
  "on_complete st =
     Returns (pushLog (JStr (glyph_check @ '' Task completed''))
                (pushMessage System (JStr (glyph_check @ '' Agent task completed.'')) st))"

text \<open>\<^verbatim>\<open>case 'error':\<close>\<close>

definition on_error :: "jsval \<Rightarrow> state \<Rightarrow> outcome" where
  "on_error msg st =
     (let errMsg = js_or (js_get msg ''message'') (JStr ''Unknown error'');
          st1 = st\<lparr>error := errMsg, status := Errored\<rparr>
      in case to_string errMsg of
           None \<Rightarrow> Throws st1
         | Some s \<Rightarrow>
             Returns (pushLog (JStr (glyph_cross @ '' '' @ s))
                        (pushMessage System (JStr (glyph_warning @ '' '' @ s)) st1)))"

text \<open>
  \<^verbatim>\<open>switch (msg.type)\<close>. Reading \<^verbatim>\<open>msg.type\<close> throws when the parsed value is \<^verbatim>\<open>null\<close>.
\<close>

definition dispatch :: "env \<Rightarrow> jsval \<Rightarrow> state \<Rightarrow> outcome" where
  "dispatch env msg st =
     (if nullish msg then Throws st
      else (let ty = js_get msg ''type''
            in if ty = JStr ''log'' \<or> ty = JStr ''observation'' then on_log env msg st
               else if ty = JStr ''message'' then on_message msg st
               else if ty = JStr ''file_tree'' then on_file_tree msg st
               else if ty = JStr ''file_change'' then on_file_change msg st
               else if ty = JStr ''agent_event'' then on_agent_event msg st
               else if ty = JStr ''status'' then on_status msg st
               else if ty = JStr ''complete'' then on_complete st
               else if ty = JStr ''error'' then on_error msg st
               else if ty = JStr ''pong'' \<or> ty = JStr ''ack'' then Returns st
               else Returns (pushLog (JStr (JSON_stringify env msg)) st)))"

text \<open>
  \<^verbatim>\<open>handleEvent(raw)\<close>: a frame that does not parse goes to the terminal log as it is.
\<close>

definition handleEvent :: "env \<Rightarrow> string \<Rightarrow> state \<Rightarrow> outcome" where
  "handleEvent env raw st =
     (case JSON_parse env raw of
        None \<Rightarrow> Returns (pushLog (JStr raw) st)
      | Some msg \<Rightarrow> dispatch env msg st)"

subsection \<open>The connection manager\<close>

text \<open>The \<^verbatim>\<open>readyState\<close> of the socket in \<open>wsRef\<close>, if there is one.\<close>

definition current_ready :: "state \<Rightarrow> ready_state option" where
  "current_ready st =
     (case wsRef st of
        None \<Rightarrow> None
      | Some i \<Rightarrow> if i < length (sockets st) then Some (readyState (sockets st ! i)) else None)"

text \<open>\<^verbatim>\<open>ws.send(frame)\<close> on socket \<open>i\<close>.\<close>

definition ws_send :: "nat \<Rightarrow> string \<Rightarrow> state \<Rightarrow> state" where
  "ws_send i frame st =
     (if i < length (sockets st)
      then st\<lparr>sockets := (sockets st)[i := (sockets st ! i)\<lparr>sent := sent (sockets st ! i) @ [frame]\<rparr>]\<rparr>
      else st)"

definition set_ready :: "nat \<Rightarrow> ready_state \<Rightarrow> state \<Rightarrow> state" where
  "set_ready i r st =
     (if i < length (sockets st)
      then st\<lparr>sockets := (sockets st)[i := (sockets st ! i)\<lparr>readyState := r\<rparr>]\<rparr>
      else st)"

definition stopHeartbeat :: "state \<Rightarrow> state" where
  "stopHeartbeat st = (if heartbeatRef st then st\<lparr>heartbeatRef := False\<rparr> else st)"

definition startHeartbeat :: "state \<Rightarrow> state" where
  "startHeartbeat st = (stopHeartbeat st)\<lparr>heartbeatRef := True\<rparr>"

text \<open>One tick of the keep-alive interval; it exists only while \<open>heartbeatRef\<close> is set.\<close>

definition heartbeat_tick :: "env \<Rightarrow> state \<Rightarrow> state" where
  "heartbeat_tick env st =
     (if heartbeatRef st \<and> current_ready st = Some OPEN
      then ws_send (the (wsRef st)) (JSON_stringify env (JObj [(''type'', JStr ''ping'')])) st
      else st)"

text \<open>
  \<^verbatim>\<open>connect(initialTask)\<close>. The guard looks at the socket in \<open>wsRef\<close> only. A new socket is
  appended to \<open>sockets\<close> in state \<^verbatim>\<open>CONNECTING\<close> and becomes the current one (the
  constructor is taken to accept the configured URL).
\<close>

definition connect :: "env \<Rightarrow> string option \<Rightarrow> state \<Rightarrow> state" where
  "connect env task st =
     (if current_ready st = Some OPEN \<or> current_ready st = Some CONNECTING then st
      else (let st1 = pushLog (JStr (glyph_plug @ '' Connecting to AI Engine'' @ glyph_ellipsis))
                        (st\<lparr>status := Connecting, error := JNull\<rparr>);
                url = (if token env \<noteq> [] then WS_BASE env @ ''?token='' @ token env
                       else WS_BASE env);
                ws = \<lparr>sock_url = url, readyState = CONNECTING, sent = [], initialTask = task\<rparr>
            in st1\<lparr>wsRef := Some (length (sockets st1)), sockets := sockets st1 @ [ws]\<rparr>))"

text \<open>
  The handshake object of \<^verbatim>\<open>ws.onopen\<close>. The token and the project id are strings, for
  which \<^verbatim>\<open>x || ''\<close> is \<open>x\<close>; a task that was not given is sent as the empty string.
\<close>

definition modelProvider :: "env \<Rightarrow> string" where
  "modelProvider env =
     (if has_window env
      then (case stored_model_provider env of
              None \<Rightarrow> ''google''
            | Some p \<Rightarrow> if p \<noteq> [] then p else ''google'')
      else ''google'')"

definition handshake :: "env \<Rightarrow> string option \<Rightarrow> jsval" where
  "handshake env task =
     JObj [(''token'', JStr (token env)),
           (''projectId'', JStr (projectId env)),
           (''modelProvider'', JStr (modelProvider env)),
           (''repoUrl'', JStr []),
           (''task'', JStr (case task of None \<Rightarrow> [] | Some t \<Rightarrow> t))]"

text \<open>
  \<^verbatim>\<open>ws.onopen\<close> of socket \<open>i\<close>. The event happens to a socket that is \<^verbatim>\<open>CONNECTING\<close>, which
  is \<^verbatim>\<open>OPEN\<close> when the callback runs; for any other socket the event does not occur and
  the state is left as it is.
\<close>

definition ws_onopen :: "env \<Rightarrow> nat \<Rightarrow> state \<Rightarrow> state" where
  "ws_onopen env i st =
     (if i < length (sockets st) \<and> readyState (sockets st ! i) = CONNECTING
      then (let task = initialTask (sockets st ! i);
                st1 = set_ready i OPEN st;
                st2 = pushLog (JStr (glyph_green @ '' Connected''))
                        (st1\<lparr>status := Connected, reconnectCount := 0\<rparr>);
                st3 = startHeartbeat st2;
                st4 = ws_send i (JSON_stringify env (handshake env task)) st3
            in case task of
                 None \<Rightarrow> st4
               | Some t \<Rightarrow>
                   if t \<noteq> []
                   then pushLog (JStr (glyph_envelope @ '' Task sent: '' @ take 80 t @ glyph_ellipsis)) st4
                   else st4)
      else st)"

text \<open>\<^verbatim>\<open>ws.onmessage\<close>: an exception of the dispatcher ends the callback, not the hook.\<close>

definition ws_onmessage :: "env \<Rightarrow> string \<Rightarrow> state \<Rightarrow> state" where
  "ws_onmessage env raw st = state_of (handleEvent env raw st)"

definition ws_onerror :: "state \<Rightarrow> state" where
  "ws_onerror st = pushLog (JStr (glyph_warning @ '' WebSocket error'')) st"

text \<open>
  \<^verbatim>\<open>ws.onclose\<close> of socket \<open>i\<close> with \<^verbatim>\<open>event.code\<close> and \<^verbatim>\<open>event.reason\<close>. The socket is
  \<^verbatim>\<open>CLOSED\<close> when the callback runs. The event happens once, to a socket that is not yet
  \<^verbatim>\<open>CLOSED\<close>.
\<close>

definition normal_close :: "nat \<Rightarrow> bool" where
  "normal_close code = (code \<in> set [1000, 4001, 4010])"

definition ws_onclose :: "env \<Rightarrow> nat \<Rightarrow> nat \<Rightarrow> string \<Rightarrow> state \<Rightarrow> state" where
  "ws_onclose env i code reason st =
     (if i < length (sockets st) \<and> readyState (sockets st ! i) \<noteq> CLOSED
      then (let task = initialTask (sockets st ! i);
                st1 = stopHeartbeat ((set_ready i CLOSED st)\<lparr>wsRef := None\<rparr>)
            in if normal_close code
               then pushLog (JStr (glyph_red @ '' Session ended (''
                                   @ (if reason \<noteq> [] then reason else show_nat code) @ '')''))
                      (st1\<lparr>status := Idle\<rparr>)
               else if reconnectCount st1 < MAX_RECONNECTS
               then (let st2 = st1\<lparr>reconnectCount := reconnectCount st1 + 1\<rparr>;
                         st3 = pushLog (JStr (glyph_cycle @ '' Reconnecting (''
                                              @ show_nat (reconnectCount st2) @ ''/''
                                              @ show_nat MAX_RECONNECTS @ '')'' @ glyph_ellipsis)) st2
                     in st3\<lparr>timers := timers st3 @ [(2000, task)]\<rparr>)
               else pushLog (JStr (glyph_cross @ '' Connection lost''))
                      (st1\<lparr>status := Errored,
                           error := JStr ''Connection lost after multiple attempts.''\<rparr>))
      else st)"

text \<open>
  The pending timer at position \<open>k\<close> fires: \<^verbatim>\<open>() => connect(initialTask)\<close>.
\<close>

definition timer_fire :: "env \<Rightarrow> nat \<Rightarrow> state \<Rightarrow> state" where
  "timer_fire env k st =
     (if k < length (timers st)
      then connect env (snd (timers st ! k))
             (st\<lparr>timers := take k (timers st) @ drop (Suc k) (timers st)\<rparr>)
      else st)"

subsection \<open>The public actions\<close>

definition sendMessageInternal :: "env \<Rightarrow> string \<Rightarrow> state \<Rightarrow> state" where
  "sendMessageInternal env text st =
     (if current_ready st \<noteq> Some OPEN
      then pushLog (JStr (glyph_warning @ '' Not connected '' @ glyph_dash @ '' cannot send message'')) st
      else pushLog (JStr (glyph_arrow @ '' '' @ text))
             (pushMessage User (JStr text)
                (ws_send (the (wsRef st))
                   (JSON_stringify env (JObj [(''type'', JStr ''action''), (''content'', JStr text)]))
                   st)))"

text \<open>\<^verbatim>\<open>startSession(task)\<close>; \<open>None\<close> is a call without a task.\<close>

definition startSession :: "env \<Rightarrow> string option \<Rightarrow> state \<Rightarrow> state" where
  "startSession env task st =
     (if current_ready st = Some OPEN
      then (case task of
              None \<Rightarrow> st
            | Some t \<Rightarrow> if t \<noteq> [] then sendMessageInternal env t st else st)
      else connect env task
             (case task of
                None \<Rightarrow> st
              | Some t \<Rightarrow> if t \<noteq> [] then pushMessage User (JStr t) st else st))"

text \<open>
  \<^verbatim>\<open>stopSession()\<close>. \<^verbatim>\<open>close\<close> moves a socket that is connecting or open to \<^verbatim>\<open>CLOSING\<close>;
  its close event comes later. The pending timers are not touched.
\<close>

definition ws_close :: "nat \<Rightarrow> state \<Rightarrow> state" where
  "ws_close i st =
     (if i < length (sockets st)
         \<and> (readyState (sockets st ! i) = OPEN \<or> readyState (sockets st ! i) = CONNECTING)
      then set_ready i CLOSING st
      else st)"

definition stopSession :: "state \<Rightarrow> state" where
  "stopSession st =
     (let st1 = stopHeartbeat st;
          st2 = (case wsRef st1 of
                   None \<Rightarrow> st1
                 | Some i \<Rightarrow> (ws_close i st1)\<lparr>wsRef := None\<rparr>)
      in pushLog (JStr (glyph_stop @ '' Session stopped'')) (st2\<lparr>status := Idle\<rparr>))"

text \<open>
  \<^verbatim>\<open>sendMessage(text)\<close>: nothing for a text that trims to the empty string; a new session
  with the trimmed text as its task when no socket is open; a message otherwise.
\<close>

definition sendMessage :: "env \<Rightarrow> string \<Rightarrow> state \<Rightarrow> state" where
  "sendMessage env text st =
     (if trim env text = [] then st
      else if current_ready st \<noteq> Some OPEN then startSession env (Some (trim env text)) st
      else sendMessageInternal env (trim env text) st)"

text \<open>The cleanup that runs when the component unmounts.\<close>

definition unmount :: "state \<Rightarrow> state" where
  "unmount st =
     (let st1 = stopHeartbeat st
      in case wsRef st1 of
           None \<Rightarrow> st1
         | Some i \<Rightarrow> (ws_close i st1)\<lparr>wsRef := None\<rparr>)"

subsection \<open>Reading a file\<close>

text \<open>
  \<^verbatim>\<open>selectFile(path)\<close> runs in two parts: the part up to \<^verbatim>\<open>await fetch(...)\<close>, which
  publishes the optimistic entry and issues the request, and the part that runs when
  the response has arrived. Other callbacks may run between the two.
\<close>

record fetch_request =
  req_session_id :: string
  req_path :: string

text \<open>
  What the awaited calls yield: \<open>Rejected m\<close> when \<^verbatim>\<open>fetch\<close> rejects with message \<open>m\<close>;
  \<open>Responded status body\<close> for a response with that status, where \<open>body\<close> is what
  \<^verbatim>\<open>res.json()\<close> gives: \<open>Inr v\<close> when it resolves to \<open>v\<close>, \<open>Inl m\<close> when it rejects with
  message \<open>m\<close>.
\<close>

datatype fetch_result = Rejected string | Responded nat "string + jsval"

definition res_ok :: "nat \<Rightarrow> bool" where
  "res_ok st = (200 \<le> st \<and> st \<le> 299)"

text \<open>The \<^verbatim>\<open>catch\<close> block, with \<^verbatim>\<open>err.message\<close>.\<close>

definition fetch_failed :: "string \<Rightarrow> string \<Rightarrow> state \<Rightarrow> state" where
  "fetch_failed path m st =
     (let st1 = pushLog (JStr (glyph_warning @ '' Failed to read '' @ path @ '': '' @ m)) st
      in st1\<lparr>activeFile :=
               (case activeFile st1 of
                  None \<Rightarrow> None
                | Some prev \<Rightarrow>
                    if af_path prev = path
                    then Some (prev\<lparr>af_content := JStr (''// Error loading file: '' @ m),
                                    af_loading := False\<rparr>)
                    else Some prev)\<rparr>)"

definition selectFile :: "env \<Rightarrow> string \<Rightarrow> state \<Rightarrow> state \<times> fetch_request option" where
  "selectFile env path st =
     (if path = [] then (st, None)
      else (let st1 = st\<lparr>activeFile :=
                           Some \<lparr>af_path = path,
                                 af_content =
                                   (case activeFile st of
                                      None \<Rightarrow> JStr []
                                    | Some prev \<Rightarrow>
                                        if af_path prev = path then af_content prev else JStr []),
                                 af_loading = True\<rparr>\<rparr>
            in case to_string (js_or (sessionIdRef st1) (JStr [])) of
                 None \<Rightarrow> (fetch_failed path (type_error_message env) st1, None)
               | Some sid \<Rightarrow> (st1, Some \<lparr>req_session_id = sid, req_path = path\<rparr>)))"

definition selectFile_response :: "env \<Rightarrow> string \<Rightarrow> fetch_result \<Rightarrow> state \<Rightarrow> state" where
  "selectFile_response env path r st =
     (case r of
        Rejected m \<Rightarrow> fetch_failed path m st
      | Responded code body \<Rightarrow>
          if \<not> res_ok code
          then (let err = (case body of Inl m \<Rightarrow> JObj [] | Inr v \<Rightarrow> v)
                in if nullish err then fetch_failed path (type_error_message env) st
                   else (case to_string (js_or (js_get err ''detail'')
                                           (JStr (''HTTP '' @ show_nat code))) of
                           None \<Rightarrow> fetch_failed path (type_error_message env) st
                         | Some m \<Rightarrow> fetch_failed path m st))
          else (case body of
                  Inl m \<Rightarrow> fetch_failed path m st
                | Inr data \<Rightarrow>
                    if nullish data then fetch_failed path (type_error_message env) st
                    else st\<lparr>activeFile :=
                              Some \<lparr>af_path = path,
                                    af_content = js_or (js_get data ''content'') (JStr []),
                                    af_loading = False\<rparr>\<rparr>))"

subsection \<open>Scenarios\<close>

text \<open>
  An attempt to open the current socket fails: the socket reports an error and then
  closes with the given code and reason.
\<close>

definition open_fails :: "env \<Rightarrow> nat \<Rightarrow> string \<Rightarrow> state \<Rightarrow> state" where
  "open_fails env code reason st =
     (case wsRef st of
        None \<Rightarrow> st
      | Some i \<Rightarrow> ws_onclose env i code reason (ws_onerror st))"

text \<open>
  A transport on which every attempt fails, one close code and reason per attempt:
  between two failures the pending reconnect timer fires.
\<close>

fun failures :: "env \<Rightarrow> (nat \<times> string) list \<Rightarrow> state \<Rightarrow> state" where
  "failures env [] st = st"
| "failures env [(c, r)] st = open_fails env c r st"
| "failures env ((c, r) # nxt # rest) st =
     failures env (nxt # rest) (timer_fire env 0 (open_fails env c r st))"

text \<open>
  The state between a failed attempt and the next one, \<open>k\<close> reconnects having been
  scheduled since a state with \<open>n\<close> sockets: no current socket, one pending timer of
  2000 ms that carries the task, \<open>k\<close> counted, and \<open>n + k\<close> sockets created so far.
\<close>

definition retrying :: "string option \<Rightarrow> nat \<Rightarrow> nat \<Rightarrow> state \<Rightarrow> bool" where
  "retrying task n k s =
     (wsRef s = None \<and> reconnectCount s = k \<and> timers s = [(2000, task)]
      \<and> length (sockets s) = n + k \<and> status s = Connecting)"

subsection \<open>Runs of the hook\<close>

text \<open>
  Everything that can happen to the hook: a call of one of its actions, its unmounting,
  an event of one of its sockets, the arrival of a file response, a reconnect timer or
  the keep-alive interval firing. A state is reachable when some sequence of these leads to it from
  the initial state.
\<close>

datatype event =
    StartSession "string option"
  | SendMessage string
  | StopSession
  | Unmount
  | SelectFile string
  | FileResponse string fetch_result
  | SocketOpen nat
  | SocketMessage string
  | SocketError
  | SocketClose nat nat string
  | TimerFire nat
  | HeartbeatTick

fun step :: "env \<Rightarrow> event \<Rightarrow> state \<Rightarrow> state" where
  "step env (StartSession task) st = startSession env task st"
| "step env (SendMessage text) st = sendMessage env text st"
| "step env StopSession st = stopSession st"
| "step env Unmount st = unmount st"
| "step env (SelectFile path) st = fst (selectFile env path st)"
| "step env (FileResponse path r) st = selectFile_response env path r st"
| "step env (SocketOpen i) st = ws_onopen env i st"
| "step env (SocketMessage raw) st = ws_onmessage env raw st"
| "step env SocketError st = ws_onerror st"
| "step env (SocketClose i code reason) st = ws_onclose env i code reason st"
| "step env (TimerFire k) st = timer_fire env k st"
| "step env HeartbeatTick st = heartbeat_tick env st"

inductive reachable :: "env \<Rightarrow> state \<Rightarrow> bool" for env :: env where
  reachable_initial: "reachable env initial_state"
| reachable_step: "reachable env st \<Longrightarrow> reachable env (step env ev st)"

text \<open>A run from a given state, and the events that open a socket.\<close>

definition run :: "env \<Rightarrow> event list \<Rightarrow> state \<Rightarrow> state" where
  "run env evs st = foldl (\<lambda>s ev. step env ev s) st evs"

fun socket_opens :: "event \<Rightarrow> bool" where
  "socket_opens (SocketOpen i) = True"
| "socket_opens _ = False"

text \<open>The reconnect budget is used up and no reconnect is pending.\<close>

definition exhausted :: "state \<Rightarrow> bool" where
  "exhausted st = (reconnectCount st = MAX_RECONNECTS \<and> timers st = [])"

text \<open>
  An idle session has no current socket, and the current socket is one of the sockets
  created.
\<close>

definition socket_inv :: "state \<Rightarrow> bool" where
  "socket_inv st =
     ((status st = Idle \<longrightarrow> wsRef st = None)
      \<and> (\<forall>i. wsRef st = Some i \<longrightarrow> i < length (sockets st)))"

text \<open>
  What the dispatcher leaves alone: the current socket and the sockets; and it never
  makes the status idle.
\<close>

definition keeps :: "state \<Rightarrow> state \<Rightarrow> bool" where
  "keeps st st' =
     (wsRef st' = wsRef st \<and> sockets st' = sockets st
      \<and> (status st' = Idle \<longrightarrow> status st = Idle))"

subsection \<open>Frames as the data model types them\<close>

text \<open>
  A tree payload is an array of nodes; a node is an object whose \<^verbatim>\<open>children\<close>, when
  present and not \<^verbatim>\<open>null\<close>, is again an array of nodes. \<open>items\<close> is the number of nodes of such a tree,
  at every depth.
\<close>

lemma size_elems_get: "size_list size (elems (js_get node k)) < Suc (size node + m)"
proof (cases node)
  case (JObj kvs)
  show ?thesis
  proof (cases "map_of kvs k")
    case None
    then show ?thesis using JObj by simp
  next
    case (Some v)
    then have "size v < Suc (size_list (size_prod (\<lambda>_. 0) size) kvs)"
      by (rule size_map_of)
    moreover have "size_list size (elems v) \<le> size v" by (cases v) simp_all
    ultimately show ?thesis using JObj Some by simp
  qed
qed simp_all

function items :: "jsval list \<Rightarrow> nat" where
  "items [] = 0"
| "items (node # rest) = 1 + items (elems (js_get node ''children'')) + items rest"
  by pat_completeness auto
termination
  by (relation "measure (size_list size)") (simp_all add: size_elems_get)

function wf_nodes :: "jsval list \<Rightarrow> bool" where
  "wf_nodes [] = True"
| "wf_nodes (node # rest) =
     ((case node of JObj kvs \<Rightarrow> True | _ \<Rightarrow> False)
      \<and> (nullish (js_get node ''children'') \<or> isArray (js_get node ''children''))
      \<and> wf_nodes (elems (js_get node ''children''))
      \<and> wf_nodes rest)"
  by pat_completeness auto
termination
  by (relation "measure (size_list size)") (simp_all add: size_elems_get)

text \<open>
  A \<^verbatim>\<open>file_tree\<close> frame is a frame that parses to a value whose \<^verbatim>\<open>type\<close> is
  \<^verbatim>\<open>file_tree\<close>; its payload is the value of \<^verbatim>\<open>tree\<close>, whatever that is, and \<open>tree_of\<close>
  gives the elements of a payload that is an array.
\<close>

definition file_tree_frame :: "env \<Rightarrow> string \<Rightarrow> bool" where
  "file_tree_frame env raw =
     (case JSON_parse env raw of
        None \<Rightarrow> False
      | Some msg \<Rightarrow> js_get msg ''type'' = JStr ''file_tree'')"

definition tree_value :: "env \<Rightarrow> string \<Rightarrow> jsval" where
  "tree_value env raw =
     (case JSON_parse env raw of None \<Rightarrow> JUndefined | Some msg \<Rightarrow> js_get msg ''tree'')"

definition tree_of :: "env \<Rightarrow> string \<Rightarrow> jsval list" where
  "tree_of env raw = elems (tree_value env raw)"

text \<open>A \<^verbatim>\<open>file_tree\<close> frame whose payload is an array of nodes.\<close>

definition node_tree_frame :: "env \<Rightarrow> string \<Rightarrow> bool" where
  "node_tree_frame env raw =
     (file_tree_frame env raw \<and> isArray (tree_value env raw) \<and> wf_nodes (tree_of env raw))"

text \<open>The summary line for a frame: the item count of its tree.\<close>

definition tree_summary :: "env \<Rightarrow> string \<Rightarrow> jsval" where
  "tree_summary env raw =
     JStr (glyph_folder @ '' File tree updated ('' @ show_nat (items (tree_of env raw))
           @ '' items)'')"

text \<open>Frames are dispatched one at a time, in the order of arrival.\<close>

definition receive_all :: "env \<Rightarrow> string list \<Rightarrow> state \<Rightarrow> state" where
  "receive_all env raws st = foldl (\<lambda>s raw. ws_onmessage env raw s) st raws"

text \<open>
  A \<^verbatim>\<open>file_change\<close> frame that carries the single path \<open>p\<close> and no list of files; an
  \<^verbatim>\<open>error\<close> frame with the message \<open>m\<close>; a frame
  \<^verbatim>\<open>{type:"status", status:"ready", sessionId:"s1"}\<close>, which has no \<^verbatim>\<open>message\<close>.
\<close>

definition single_path_frame :: "env \<Rightarrow> string \<Rightarrow> string \<Rightarrow> bool" where
  "single_path_frame env raw p =
     (case JSON_parse env raw of
        None \<Rightarrow> False
      | Some msg \<Rightarrow>
          js_get msg ''type'' = JStr ''file_change'' \<and> \<not> isArray (js_get msg ''files'')
          \<and> js_get msg ''path'' = JStr p)"

definition error_frame :: "env \<Rightarrow> string \<Rightarrow> string \<Rightarrow> bool" where
  "error_frame env raw m =
     (case JSON_parse env raw of
        None \<Rightarrow> False
      | Some msg \<Rightarrow> js_get msg ''type'' = JStr ''error'' \<and> js_get msg ''message'' = JStr m)"

definition ready_frame :: "env \<Rightarrow> string \<Rightarrow> bool" where
  "ready_frame env raw =
     (case JSON_parse env raw of
        None \<Rightarrow> False
      | Some msg \<Rightarrow>
          js_get msg ''type'' = JStr ''status'' \<and> js_get msg ''status'' = JStr ''ready''
          \<and> js_get msg ''sessionId'' = JStr ''s1'' \<and> js_get msg ''message'' = JUndefined)"

text \<open>A successful response of the file-read endpoint with the given content.\<close>

definition ok_response :: "string \<Rightarrow> fetch_result" where
  "ok_response c = Responded 200 (Inr (JObj [(''content'', JStr c)]))"

subsection \<open>A concrete host for the examples\<close>

text \<open>
  The examples run on a host whose \<^verbatim>\<open>JSON.parse\<close> is given on the frames they use, and
  whose \<^verbatim>\<open>JSON.stringify\<close> prints a value in the order of its properties, strings quoted
  with the quote and the backslash escaped (the examples have no control characters),
  and whose \<^verbatim>\<open>trim\<close> removes the ASCII white space at both ends.
\<close>

definition demo_quote :: "string \<Rightarrow> string" where
  "demo_quote s =
     [CHR 0x22]
     @ concat (map (\<lambda>c. if c = CHR 0x22 \<or> c = CHR 0x5C then [CHR 0x5C, c] else [c]) s)
     @ [CHR 0x22]"

fun demo_stringify :: "jsval \<Rightarrow> string"
  and demo_items :: "jsval list \<Rightarrow> string"
  and demo_members :: "(string \<times> jsval) list \<Rightarrow> string" where
  "demo_stringify JUndefined = ''null''"
| "demo_stringify JNull = ''null''"
| "demo_stringify (JBool b) = (if b then ''true'' else ''false'')"
| "demo_stringify (JNum r) = r"
| "demo_stringify (JStr s) = demo_quote s"
| "demo_stringify (JArr xs) = ''['' @ demo_items xs @ '']''"
| "demo_stringify (JObj kvs) = ''{'' @ demo_members kvs @ ''}''"
| "demo_items [] = []"
| "demo_items (x # xs) = demo_stringify x @ (if xs = [] then [] else '','' @ demo_items xs)"
| "demo_members [] = []"
| "demo_members ((k, v) # kvs) =
     demo_quote k @ '':'' @ demo_stringify v @ (if kvs = [] then [] else '','' @ demo_members kvs)"

definition frame_null :: string where
  "frame_null = ''null''"

definition frame_observation :: string where
  \<open>frame_observation = ''{"type":"observation","event":"agent_message","message":"hi"}''\<close>

definition frame_ready :: string where
  \<open>frame_ready = ''{"type":"status","status":"ready","sessionId":"s1"}''\<close>

definition frame_error :: string where
  \<open>frame_error = ''{"type":"error","message":"OOM"}''\<close>

definition frame_error_empty :: string where
  \<open>frame_error_empty = ''{"type":"error","message":""}''\<close>

definition frame_change :: string where
  \<open>frame_change = ''{"type":"file_change","path":"src/main.py"}''\<close>

definition frame_change_empty :: string where
  \<open>frame_change_empty = ''{"type":"file_change","path":""}''\<close>

definition frame_tree1 :: string where
  \<open>frame_tree1 = ''{"type":"file_tree","tree":[{"name":"src","children":[{"name":"a.py"}]}]}''\<close>

definition frame_tree2 :: string where
  \<open>frame_tree2 = ''{"type":"file_tree","tree":[{"name":"README.md"}]}''\<close>

definition frame_tree_root :: string where
  \<open>frame_tree_root = ''{"type":"file_tree","tree":{"name":"root","children":[{"name":"a.py"}]}}''\<close>

definition frame_tree_null_node :: string where
  \<open>frame_tree_null_node = ''{"type":"file_tree","tree":[null]}''\<close>

definition demo_frames :: "(string \<times> jsval) list" where
  "demo_frames =
     [(frame_null, JNull),
      (frame_observation,
       JObj [(''type'', JStr ''observation''), (''event'', JStr ''agent_message''),
             (''message'', JStr ''hi'')]),
      (frame_ready,
       JObj [(''type'', JStr ''status''), (''status'', JStr ''ready''),
             (''sessionId'', JStr ''s1'')]),
      (frame_error,
       JObj [(''type'', JStr ''error''), (''message'', JStr ''OOM'')]),
      (frame_error_empty,
       JObj [(''type'', JStr ''error''), (''message'', JStr [])]),
      (frame_change,
       JObj [(''type'', JStr ''file_change''), (''path'', JStr ''src/main.py'')]),
      (frame_change_empty,
       JObj [(''type'', JStr ''file_change''), (''path'', JStr [])]),
      (frame_tree1,
       JObj [(''type'', JStr ''file_tree''),
             (''tree'', JArr [JObj [(''name'', JStr ''src''),
                                    (''children'', JArr [JObj [(''name'', JStr ''a.py'')]])]])]),
      (frame_tree2,
       JObj [(''type'', JStr ''file_tree''),
             (''tree'', JArr [JObj [(''name'', JStr ''README.md'')]])]),
      (frame_tree_root,
       JObj [(''type'', JStr ''file_tree''),
             (''tree'', JObj [(''name'', JStr ''root''),
                              (''children'', JArr [JObj [(''name'', JStr ''a.py'')]])])]),
      (frame_tree_null_node,
       JObj [(''type'', JStr ''file_tree''), (''tree'', JArr [JNull])])]"

definition demo_trim :: "string \<Rightarrow> string" where
  "demo_trim s =
     rev (dropWhile (\<lambda>c. c \<in> set [CHR 0x09, CHR 0x0A, CHR 0x0B, CHR 0x0C, CHR 0x0D, CHR 0x20])
            (rev (dropWhile
                    (\<lambda>c. c \<in> set [CHR 0x09, CHR 0x0A, CHR 0x0B, CHR 0x0C, CHR 0x0D, CHR 0x20])
                    s)))"

definition demo_env :: env where
  "demo_env =
     \<lparr>token = [], projectId = ''demo'', WS_BASE = ''ws://localhost:8000/ws'',
      has_window = True, stored_model_provider = None,
      JSON_parse = map_of demo_frames, JSON_stringify = demo_stringify,
      trim = demo_trim, type_error_message = ''Cannot read properties of null''\<rparr>"

section \<open>Properties\<close>

subsection \<open>Reconnecting\<close>

lemma connect_fresh:
  assumes "wsRef st = None"
  shows "wsRef (connect env task st) = Some (length (sockets st))"
    and "sockets (connect env task st) =
           sockets st @
             [\<lparr>sock_url = (if token env \<noteq> [] then WS_BASE env @ ''?token='' @ token env
                            else WS_BASE env),
               readyState = CONNECTING, sent = [], initialTask = task\<rparr>]"
    and "reconnectCount (connect env task st) = reconnectCount st"
    and "timers (connect env task st) = timers st"
    and "status (connect env task st) = Connecting"
  using assms by (simp_all add: connect_def current_ready_def Let_def pushLog_def)

lemma startSession_fresh:
  assumes "wsRef st = None"
  shows "\<exists>st'. startSession env task st = connect env task st' \<and> wsRef st' = None
           \<and> reconnectCount st' = reconnectCount st \<and> timers st' = timers st
           \<and> sockets st' = sockets st"
  using assms
  by (auto simp: startSession_def current_ready_def pushMessage_def split: option.splits)

lemma open_fails_retry:
  assumes "wsRef st = Some i" "i < length (sockets st)" "readyState (sockets st ! i) \<noteq> CLOSED"
    and "\<not> normal_close c" "reconnectCount st < 3"
  shows "wsRef (open_fails env c r st) = None"
    and "reconnectCount (open_fails env c r st) = reconnectCount st + 1"
    and "timers (open_fails env c r st) = timers st @ [(2000, initialTask (sockets st ! i))]"
    and "length (sockets (open_fails env c r st)) = length (sockets st)"
    and "status (open_fails env c r st) = status st"
  using assms
  by (simp_all add: open_fails_def ws_onclose_def ws_onerror_def Let_def set_ready_def
        stopHeartbeat_def pushLog_def MAX_RECONNECTS_def)

lemma open_fails_exhausted:
  assumes "wsRef st = Some i" "i < length (sockets st)" "readyState (sockets st ! i) \<noteq> CLOSED"
    and "\<not> normal_close c" "\<not> reconnectCount st < 3"
  shows "wsRef (open_fails env c r st) = None"
    and "reconnectCount (open_fails env c r st) = reconnectCount st"
    and "timers (open_fails env c r st) = timers st"
    and "length (sockets (open_fails env c r st)) = length (sockets st)"
    and "status (open_fails env c r st) = Errored"
    and "error (open_fails env c r st) = JStr ''Connection lost after multiple attempts.''"
  using assms
  by (simp_all add: open_fails_def ws_onclose_def ws_onerror_def Let_def set_ready_def
        stopHeartbeat_def pushLog_def MAX_RECONNECTS_def)

lemma timer_fire_single:
  assumes "timers st = [(d, t)]"
  shows "timer_fire env 0 st = connect env t (st\<lparr>timers := []\<rparr>)"
  using assms by (simp add: timer_fire_def)

lemma first_failure:
  assumes "wsRef st = None" "reconnectCount st = 0" "timers st = []" "\<not> normal_close c"
  shows "retrying task (length (sockets st)) 1 (open_fails env c r (connect env task st))"
proof -
  let ?s = "connect env task st"
  have a: "wsRef ?s = Some (length (sockets st))" "length (sockets st) < length (sockets ?s)"
    "readyState (sockets ?s ! length (sockets st)) \<noteq> CLOSED" "reconnectCount ?s < 3"
    "initialTask (sockets ?s ! length (sockets st)) = task"
    using assms by (simp_all add: connect_fresh)
  show ?thesis
    unfolding retrying_def
    using open_fails_retry[OF a(1) a(2) a(3) assms(4) a(4), of env r] a(5) assms
    by (simp add: connect_fresh)
qed

lemma next_failure:
  assumes "retrying task n k s" "k < 3" "\<not> normal_close c"
  shows "retrying task n (Suc k) (open_fails env c r (timer_fire env 0 s))"
proof -
  from assms(1) have s: "wsRef s = None" "reconnectCount s = k" "timers s = [(2000, task)]"
    "length (sockets s) = n + k" "status s = Connecting"
    by (simp_all add: retrying_def)
  let ?t = "s\<lparr>timers := []\<rparr>"
  let ?s = "connect env task ?t"
  have tf: "timer_fire env 0 s = ?s" using s(3) by (simp add: timer_fire_single)
  have w0: "wsRef ?t = None" using s(1) by simp
  have a: "wsRef ?s = Some (n + k)" "n + k < length (sockets ?s)"
    "readyState (sockets ?s ! (n + k)) \<noteq> CLOSED" "reconnectCount ?s < 3"
    "initialTask (sockets ?s ! (n + k)) = task" "timers ?s = []"
    "length (sockets ?s) = n + k + 1" "status ?s = Connecting" "reconnectCount ?s = k"
    using s assms(2) by (simp_all add: connect_fresh[OF w0] nth_append)
  show ?thesis
    unfolding retrying_def tf
    using open_fails_retry[OF a(1) a(2) a(3) assms(3) a(4), of env r] a s
    by simp
qed

lemma last_failure:
  assumes "retrying task n 3 s" "\<not> normal_close c"
  shows "status (open_fails env c r (timer_fire env 0 s)) = Errored
       \<and> error (open_fails env c r (timer_fire env 0 s))
           = JStr ''Connection lost after multiple attempts.''
       \<and> timers (open_fails env c r (timer_fire env 0 s)) = []
       \<and> wsRef (open_fails env c r (timer_fire env 0 s)) = None
       \<and> length (sockets (open_fails env c r (timer_fire env 0 s))) = n + 4
       \<and> reconnectCount (open_fails env c r (timer_fire env 0 s)) = 3"
proof -
  from assms(1) have s: "wsRef s = None" "reconnectCount s = 3" "timers s = [(2000, task)]"
    "length (sockets s) = n + 3" "status s = Connecting"
    by (simp_all add: retrying_def)
  let ?t = "s\<lparr>timers := []\<rparr>"
  let ?s = "connect env task ?t"
  have tf: "timer_fire env 0 s = ?s" using s(3) by (simp add: timer_fire_single)
  have w0: "wsRef ?t = None" using s(1) by simp
  have a: "wsRef ?s = Some (n + 3)" "n + 3 < length (sockets ?s)"
    "readyState (sockets ?s ! (n + 3)) \<noteq> CLOSED" "\<not> reconnectCount ?s < 3"
    "timers ?s = []" "length (sockets ?s) = n + 4" "reconnectCount ?s = 3"
    using s by (simp_all add: connect_fresh[OF w0] nth_append)
  show ?thesis
    unfolding tf
    using open_fails_exhausted[OF a(1) a(2) a(3) assms(2) a(4), of env r] a
    by simp
qed

text \<open>
  Once the budget is used up and nothing is pending, it stays so for as long as no
  socket opens: only \<^verbatim>\<open>ws.onopen\<close> resets the count.
\<close>

lemma pushLog_budget [simp]:
  "reconnectCount (pushLog c st) = reconnectCount st" "timers (pushLog c st) = timers st"
  by (simp_all add: pushLog_def)

lemma pushMessage_budget [simp]:
  "reconnectCount (pushMessage k c st) = reconnectCount st"
  "timers (pushMessage k c st) = timers st"
  by (simp_all add: pushMessage_def)

lemma dispatch_budget:
  "reconnectCount (state_of (dispatch env msg st)) = reconnectCount st
   \<and> timers (state_of (dispatch env msg st)) = timers st"
proof -
  have "reconnectCount (state_of (on_log env msg st)) = reconnectCount st
        \<and> timers (state_of (on_log env msg st)) = timers st"
    by (simp add: on_log_def Let_def)
  moreover have "reconnectCount (state_of (on_message msg st)) = reconnectCount st
        \<and> timers (state_of (on_message msg st)) = timers st"
    by (simp add: on_message_def)
  moreover have "reconnectCount (state_of (on_file_tree msg st)) = reconnectCount st
        \<and> timers (state_of (on_file_tree msg st)) = timers st"
    by (simp add: on_file_tree_def Let_def split: option.splits)
  moreover have "reconnectCount (state_of (on_file_change msg st)) = reconnectCount st
        \<and> timers (state_of (on_file_change msg st)) = timers st"
    by (simp add: on_file_change_def Let_def split: option.splits)
  moreover have "reconnectCount (state_of (on_agent_event msg st)) = reconnectCount st
        \<and> timers (state_of (on_agent_event msg st)) = timers st"
    by (simp add: on_agent_event_def Let_def split: option.splits)
  moreover have "reconnectCount (state_of (on_status msg st)) = reconnectCount st
        \<and> timers (state_of (on_status msg st)) = timers st"
    by (simp add: on_status_def Let_def split: option.splits)
  moreover have "reconnectCount (state_of (on_complete st)) = reconnectCount st
        \<and> timers (state_of (on_complete st)) = timers st"
    by (simp add: on_complete_def)
  moreover have "reconnectCount (state_of (on_error msg st)) = reconnectCount st
        \<and> timers (state_of (on_error msg st)) = timers st"
    by (simp add: on_error_def Let_def split: option.splits)
  ultimately show ?thesis by (simp add: dispatch_def Let_def)
qed

lemma connect_budget:
  "reconnectCount (connect env task st) = reconnectCount st"
  "timers (connect env task st) = timers st"
  by (simp_all add: connect_def Let_def)

lemma step_exhausted:
  assumes "exhausted st" "\<not> socket_opens ev"
  shows "exhausted (step env ev st)"
proof (cases ev)
  case (StartSession task)
  then show ?thesis
    using assms(1)
    by (auto simp: exhausted_def startSession_def connect_budget sendMessageInternal_def
        ws_send_def split: option.splits)
next
  case (SendMessage utterance)
  then show ?thesis
    using assms(1)
    by (auto simp: exhausted_def sendMessage_def startSession_def connect_budget
        sendMessageInternal_def ws_send_def split: option.splits)
next
  case StopSession
  then show ?thesis
    using assms(1)
    by (auto simp: exhausted_def stopSession_def Let_def stopHeartbeat_def ws_close_def
        set_ready_def split: option.splits)
next
  case Unmount
  then show ?thesis
    using assms(1)
    by (auto simp: exhausted_def unmount_def Let_def stopHeartbeat_def ws_close_def
        set_ready_def split: option.splits)
next
  case (SelectFile path)
  then show ?thesis
    using assms(1)
    by (auto simp: exhausted_def selectFile_def Let_def fetch_failed_def split: option.splits)
next
  case (FileResponse path r)
  then show ?thesis
    using assms(1)
    by (auto simp: exhausted_def selectFile_response_def Let_def fetch_failed_def
        split: option.splits fetch_result.splits sum.splits)
next
  case (SocketOpen i)
  then show ?thesis using assms(2) by simp
next
  case (SocketMessage raw)
  then show ?thesis
    using assms(1) dispatch_budget
    by (auto simp: exhausted_def ws_onmessage_def handleEvent_def split: option.splits)
next
  case SocketError
  then show ?thesis using assms(1) by (simp add: exhausted_def ws_onerror_def)
next
  case (SocketClose i code reason)
  then show ?thesis
    using assms(1)
    by (auto simp: exhausted_def ws_onclose_def Let_def stopHeartbeat_def set_ready_def)
next
  case (TimerFire k)
  then show ?thesis using assms(1) by (simp add: exhausted_def timer_fire_def)
next
  case HeartbeatTick
  then show ?thesis
    using assms(1) by (auto simp: exhausted_def heartbeat_tick_def ws_send_def)
qed

lemma run_exhausted:
  assumes "exhausted st" "\<forall>ev \<in> set evs. \<not> socket_opens ev"
  shows "exhausted (run env evs st)"
  using assms(2)
proof (induction evs rule: rev_induct)
  case Nil
  then show ?case using assms(1) by (simp add: run_def)
next
  case (snoc ev evs)
  then have "exhausted (run env evs st)" "\<not> socket_opens ev" by simp_all
  then have "exhausted (step env ev (run env evs st))" by (rule step_exhausted)
  then show ?case by (simp add: run_def)
qed

text \<open>
  C4. From a state with no current socket, no pending timer and a reconnect count of
  zero, \<^verbatim>\<open>startSession(task)\<close> on a transport whose four attempts all end with a close
  code outside 1000, 4001 and 4010: after each of the first three failures exactly one
  reconnect is pending, with a delay of 2000 ms and the same task, and one more socket
  has been created; after the fourth failure the status is \<^verbatim>\<open>error\<close>, the error text is
  \<^verbatim>\<open>Connection lost after multiple attempts.\<close>, no timer is pending and no socket is
  current. Four sockets were created in all: the first attempt and three reconnects.
  From then on no timer is ever pending again, whatever happens, unless a socket opens.
\<close>

theorem reconnect_budget:
  assumes "wsRef st = None" "reconnectCount st = 0" "timers st = []"
    and "\<not> normal_close c1" "\<not> normal_close c2" "\<not> normal_close c3" "\<not> normal_close c4"
  shows "retrying task (length (sockets st)) 1
           (failures env [(c1, r1)] (startSession env task st))
       \<and> retrying task (length (sockets st)) 2
           (failures env [(c1, r1), (c2, r2)] (startSession env task st))
       \<and> retrying task (length (sockets st)) 3
           (failures env [(c1, r1), (c2, r2), (c3, r3)] (startSession env task st))
       \<and> status (failures env [(c1, r1), (c2, r2), (c3, r3), (c4, r4)]
                   (startSession env task st)) = Errored
       \<and> error (failures env [(c1, r1), (c2, r2), (c3, r3), (c4, r4)]
                  (startSession env task st))
           = JStr ''Connection lost after multiple attempts.''
       \<and> timers (failures env [(c1, r1), (c2, r2), (c3, r3), (c4, r4)]
                   (startSession env task st)) = []
       \<and> wsRef (failures env [(c1, r1), (c2, r2), (c3, r3), (c4, r4)]
                  (startSession env task st)) = None
       \<and> length (sockets (failures env [(c1, r1), (c2, r2), (c3, r3), (c4, r4)]
                            (startSession env task st)))
           = length (sockets st) + 4
       \<and> (\<forall>evs. (\<forall>ev \<in> set evs. \<not> socket_opens ev) \<longrightarrow>
             timers (run env evs (failures env [(c1, r1), (c2, r2), (c3, r3), (c4, r4)]
                                    (startSession env task st))) = [])"
proof -
  obtain st' where st': "startSession env task st = connect env task st'"
    "wsRef st' = None" "reconnectCount st' = 0" "timers st' = []" "sockets st' = sockets st"
    using startSession_fresh[OF assms(1), of env task] assms(2,3) by auto
  let ?n = "length (sockets st)"
  let ?a1 = "open_fails env c1 r1 (connect env task st')"
  let ?a2 = "open_fails env c2 r2 (timer_fire env 0 ?a1)"
  let ?a3 = "open_fails env c3 r3 (timer_fire env 0 ?a2)"
  have p1: "retrying task ?n 1 ?a1"
    using first_failure[OF st'(2,3,4) assms(4), of task env r1] st'(5) by simp
  have p2: "retrying task ?n 2 ?a2"
    using next_failure[OF p1 _ assms(5), of env r2] by (simp add: eval_nat_numeral)
  have p3: "retrying task ?n 3 ?a3"
    using next_failure[OF p2 _ assms(6), of env r3] by (simp add: eval_nat_numeral)
  let ?a4 = "open_fails env c4 r4 (timer_fire env 0 ?a3)"
  have p4: "status ?a4 = Errored"
    "error ?a4 = JStr ''Connection lost after multiple attempts.''"
    "timers ?a4 = []" "wsRef ?a4 = None" "length (sockets ?a4) = ?n + 4"
    "reconnectCount ?a4 = 3"
    using last_failure[OF p3 assms(7), of env r4] by simp_all
  have e: "exhausted ?a4" using p4 by (simp add: exhausted_def MAX_RECONNECTS_def)
  have later: "timers (run env evs ?a4) = []" if "\<forall>ev \<in> set evs. \<not> socket_opens ev" for evs
    using run_exhausted[OF e that, of env] by (simp add: exhausted_def)
  show ?thesis
    using p1 p2 p3 p4 later by (simp add: st'(1))
qed

theorem reconnect_budget_witness:
  "wsRef initial_state = None \<and> reconnectCount initial_state = 0 \<and> timers initial_state = []
   \<and> \<not> normal_close 1006
   \<and> status (failures demo_env [(1006, []), (1006, []), (1006, []), (1006, [])]
               (startSession demo_env (Some ''fix the bug'') initial_state)) = Errored
   \<and> timers (failures demo_env [(1006, []), (1006, []), (1006, []), (1006, [])]
               (startSession demo_env (Some ''fix the bug'') initial_state)) = []
   \<and> length (sockets (failures demo_env [(1006, []), (1006, []), (1006, []), (1006, [])]
                        (startSession demo_env (Some ''fix the bug'') initial_state))) = 4
   \<and> \<not> socket_opens (StartSession None) \<and> \<not> socket_opens (SocketClose 4 1006 [])
   \<and> timers (run demo_env [StartSession None, SocketClose 4 1006 []]
               (failures demo_env [(1006, []), (1006, []), (1006, []), (1006, [])]
                  (startSession demo_env (Some ''fix the bug'') initial_state))) = []"
proof -
  have h: "wsRef initial_state = None" "reconnectCount initial_state = 0"
    "timers initial_state = []" "sockets initial_state = []"
    by (simp_all add: initial_state_def)
  have c: "\<not> normal_close 1006" by (simp add: normal_close_def)
  have q: "\<forall>ev \<in> set [StartSession None, SocketClose 4 1006 []]. \<not> socket_opens ev"
    by simp
  show ?thesis
    using reconnect_budget[OF h(1) h(2) h(3) c c c c,
        of "Some ''fix the bug''" demo_env "[]" "[]" "[]" "[]"] h c q
    by simp
qed

subsection \<open>Closing normally\<close>

text \<open>
  C9. When a socket that is not yet closed closes with code 1000, 4001 or 4010, the
  status becomes \<^verbatim>\<open>idle\<close>, no timer is added to the pending ones, no socket is created
  and none is current, whatever the reconnect count is (it is left as it was).
\<close>

theorem normal_close_goes_idle:
  assumes "i < length (sockets st)" "readyState (sockets st ! i) \<noteq> CLOSED"
    and "code = 1000 \<or> code = 4001 \<or> code = 4010"
  shows "status (ws_onclose env i code reason st) = Idle
       \<and> timers (ws_onclose env i code reason st) = timers st
       \<and> wsRef (ws_onclose env i code reason st) = None
       \<and> length (sockets (ws_onclose env i code reason st)) = length (sockets st)
       \<and> reconnectCount (ws_onclose env i code reason st) = reconnectCount st"
  using assms
  by (auto simp: ws_onclose_def Let_def normal_close_def set_ready_def stopHeartbeat_def
        pushLog_def)

theorem normal_close_goes_idle_witness:
  "0 < length (sockets (connect demo_env None initial_state))
   \<and> readyState (sockets (connect demo_env None initial_state) ! 0) \<noteq> CLOSED
   \<and> status (ws_onclose demo_env 0 4001 ''policy'' (connect demo_env None initial_state)) = Idle
   \<and> timers (ws_onclose demo_env 0 4001 ''policy'' (connect demo_env None initial_state)) = []"
proof -
  have h: "0 < length (sockets (connect demo_env None initial_state))"
    "readyState (sockets (connect demo_env None initial_state) ! 0) \<noteq> CLOSED"
    "timers (connect demo_env None initial_state) = []"
    by (simp_all add: connect_def current_ready_def initial_state_def pushLog_def Let_def)
  show ?thesis
    using normal_close_goes_idle[OF h(1) h(2), of 4001 demo_env "''policy''"] h
    by simp
qed

subsection \<open>The handshake\<close>

text \<open>
  C10. The handshake object has \<^verbatim>\<open>repoUrl\<close> equal to the empty string for every token,
  project, stored model provider and task, and the frame that \<^verbatim>\<open>ws.onopen\<close> sends on its
  socket is the serialisation of that object.
\<close>

theorem handshake_repoUrl_empty:
  assumes "i < length (sockets st)" "readyState (sockets st ! i) = CONNECTING"
  shows "js_get (handshake env task) ''repoUrl'' = JStr []
       \<and> sent (sockets (ws_onopen env i st) ! i)
           = sent (sockets st ! i)
             @ [JSON_stringify env (handshake env (initialTask (sockets st ! i)))]"
  using assms
  by (auto simp: handshake_def ws_onopen_def Let_def ws_send_def set_ready_def
        startHeartbeat_def stopHeartbeat_def pushLog_def split: option.splits)

theorem handshake_repoUrl_empty_witness:
  \<open>0 < length (sockets (connect demo_env (Some ''fix the bug'') initial_state))
   \<and> readyState (sockets (connect demo_env (Some ''fix the bug'') initial_state) ! 0) = CONNECTING
   \<and> sent (sockets (ws_onopen demo_env 0
                      (connect demo_env (Some ''fix the bug'') initial_state)) ! 0)
       = [''{"token":"","projectId":"demo","modelProvider":"google","repoUrl":"","task":"fix the bug"}'']\<close>
proof -
  let ?s = "connect demo_env (Some ''fix the bug'') initial_state"
  have h: "0 < length (sockets ?s)" "readyState (sockets ?s ! 0) = CONNECTING"
    "sent (sockets ?s ! 0) = []" "initialTask (sockets ?s ! 0) = Some ''fix the bug''"
    by (simp_all add: connect_def current_ready_def initial_state_def pushLog_def Let_def)
  show ?thesis
    using handshake_repoUrl_empty[OF h(1) h(2), of demo_env None] h
    by (simp add: handshake_def demo_env_def modelProvider_def demo_quote_def)
qed

subsection \<open>What the concrete host parses\<close>

lemmas demo_frame_defs =
  frame_null_def frame_observation_def frame_ready_def frame_error_def frame_error_empty_def
  frame_change_def frame_change_empty_def frame_tree1_def frame_tree2_def
  frame_tree_root_def frame_tree_null_node_def

lemma demo_parse_null: "JSON_parse demo_env frame_null = Some JNull"
  by (simp add: demo_env_def demo_frames_def demo_frame_defs)

lemma demo_parse_observation:
  "JSON_parse demo_env frame_observation
     = Some (JObj [(''type'', JStr ''observation''), (''event'', JStr ''agent_message''),
                   (''message'', JStr ''hi'')])"
  by (simp add: demo_env_def demo_frames_def demo_frame_defs)

lemma demo_parse_ready:
  "JSON_parse demo_env frame_ready
     = Some (JObj [(''type'', JStr ''status''), (''status'', JStr ''ready''),
                   (''sessionId'', JStr ''s1'')])"
  by (simp add: demo_env_def demo_frames_def demo_frame_defs)

lemma demo_parse_error:
  "JSON_parse demo_env frame_error
     = Some (JObj [(''type'', JStr ''error''), (''message'', JStr ''OOM'')])"
  by (simp add: demo_env_def demo_frames_def demo_frame_defs)

lemma demo_parse_error_empty:
  "JSON_parse demo_env frame_error_empty
     = Some (JObj [(''type'', JStr ''error''), (''message'', JStr [])])"
  by (simp add: demo_env_def demo_frames_def demo_frame_defs)

lemma demo_parse_change:
  "JSON_parse demo_env frame_change
     = Some (JObj [(''type'', JStr ''file_change''), (''path'', JStr ''src/main.py'')])"
  by (simp add: demo_env_def demo_frames_def demo_frame_defs)

lemma demo_parse_change_empty:
  "JSON_parse demo_env frame_change_empty
     = Some (JObj [(''type'', JStr ''file_change''), (''path'', JStr [])])"
  by (simp add: demo_env_def demo_frames_def demo_frame_defs)

lemma demo_parse_tree1:
  "JSON_parse demo_env frame_tree1
     = Some (JObj [(''type'', JStr ''file_tree''),
                   (''tree'', JArr [JObj [(''name'', JStr ''src''),
                                          (''children'', JArr [JObj [(''name'', JStr ''a.py'')]])]])])"
  by (simp add: demo_env_def demo_frames_def demo_frame_defs)

lemma demo_parse_tree2:
  "JSON_parse demo_env frame_tree2
     = Some (JObj [(''type'', JStr ''file_tree''),
                   (''tree'', JArr [JObj [(''name'', JStr ''README.md'')]])])"
  by (simp add: demo_env_def demo_frames_def demo_frame_defs)

lemma demo_parse_tree_root:
  "JSON_parse demo_env frame_tree_root
     = Some (JObj [(''type'', JStr ''file_tree''),
                   (''tree'', JObj [(''name'', JStr ''root''),
                                    (''children'', JArr [JObj [(''name'', JStr ''a.py'')]])])])"
  by (simp add: demo_env_def demo_frames_def demo_frame_defs)

lemma demo_parse_tree_null_node:
  "JSON_parse demo_env frame_tree_null_node
     = Some (JObj [(''type'', JStr ''file_tree''), (''tree'', JArr [JNull])])"
  by (simp add: demo_env_def demo_frames_def demo_frame_defs)

subsection \<open>The file tree\<close>

lemma type_not_nullish: "js_get msg k = JStr s \<Longrightarrow> \<not> nullish msg"
  by (cases msg) (auto simp: nullish_def)

text \<open>On a tree of nodes \<^verbatim>\<open>_countFiles\<close> returns, and returns the number of its nodes.\<close>

lemma countNodes_items: "wf_nodes ns \<Longrightarrow> countNodes ns = Some (items ns)"
proof (induction ns rule: items.induct)
  case 1
  then show ?case by simp
next
  case (2 node rest)
  from "2.prems" obtain kvs where n: "node = JObj kvs" by (cases node) auto
  let ?c = "js_get node ''children''"
  from "2.prems" have c: "nullish ?c \<or> isArray ?c"
    and wc: "wf_nodes (elems ?c)" and wr: "wf_nodes rest"
    by simp_all
  have ih1: "countNodes (elems ?c) = Some (items (elems ?c))" using "2.IH"(1) wc by simp
  have ih2: "countNodes rest = Some (items rest)" using "2.IH"(2) wr by simp
  have nn: "\<not> nullish node" using n by (simp add: nullish_def)
  show ?case
  proof (cases "length_truthy ?c")
    case True
    then obtain cs where cs: "?c = JArr cs" using c by (cases ?c) (auto simp: nullish_def)
    then have "countFiles ?c = countNodes cs" by (simp add: countFiles.simps)
    then show ?thesis using True nn ih1 ih2 cs by simp
  next
    case False
    then have "elems ?c = []" using c by (cases ?c) (auto simp: nullish_def)
    then show ?thesis using False nn ih2 by simp
  qed
qed

lemma file_tree_step:
  assumes "node_tree_frame env raw"
  shows "handleEvent env raw st
           = Returns (pushLog (tree_summary env raw) (st\<lparr>fileTree := tree_of env raw\<rparr>))"
proof -
  from assms obtain msg where m: "JSON_parse env raw = Some msg"
    "js_get msg ''type'' = JStr ''file_tree''" "isArray (js_get msg ''tree'')"
    "wf_nodes (elems (js_get msg ''tree''))"
    by (auto simp: node_tree_frame_def file_tree_frame_def tree_value_def tree_of_def
        split: option.splits)
  from m(3) obtain ns where ns: "js_get msg ''tree'' = JArr ns"
    by (cases "js_get msg ''tree''") auto
  have cnt: "countFiles (js_get msg ''tree'') = Some (items ns)"
    using m(4) ns by (simp add: countFiles.simps countNodes_items)
  have "dispatch env msg st = on_file_tree msg st"
    using m(2) type_not_nullish[OF m(2)] by (simp add: dispatch_def)
  then show ?thesis
    using m(1) ns cnt
    by (simp add: handleEvent_def on_file_tree_def tree_summary_def tree_of_def tree_value_def)
qed

text \<open>
  A \<^verbatim>\<open>file_tree\<close> frame whose payload is not an array is skipped by the guard
  \<^verbatim>\<open>Array.isArray(msg.tree)\<close>: nothing changes.
\<close>

lemma non_array_tree_step:
  assumes "file_tree_frame env raw" "\<not> isArray (tree_value env raw)"
  shows "handleEvent env raw st = Returns st"
proof -
  from assms obtain msg where m: "JSON_parse env raw = Some msg"
    "js_get msg ''type'' = JStr ''file_tree''" "\<not> isArray (js_get msg ''tree'')"
    by (auto simp: file_tree_frame_def tree_value_def split: option.splits)
  have "dispatch env msg st = on_file_tree msg st"
    using m(2) type_not_nullish[OF m(2)] by (simp add: dispatch_def)
  then show ?thesis
    using m(1,3) by (simp add: handleEvent_def on_file_tree_def)
qed

text \<open>
  Whatever the nodes are, a \<^verbatim>\<open>file_tree\<close> frame whose \<^verbatim>\<open>tree\<close> is an array replaces the
  file tree, also when counting its items throws.
\<close>

lemma array_tree_replaces:
  assumes "JSON_parse env raw = Some msg" "js_get msg ''type'' = JStr ''file_tree''"
    and "isArray (js_get msg ''tree'')"
  shows "fileTree (ws_onmessage env raw st) = tree_of env raw"
proof -
  have "dispatch env msg st = on_file_tree msg st"
    using assms(2) type_not_nullish[OF assms(2)] by (simp add: dispatch_def)
  then show ?thesis
    using assms(1,3)
    by (simp add: ws_onmessage_def handleEvent_def on_file_tree_def tree_of_def tree_value_def
        pushLog_def Let_def split: option.splits)
qed

lemma receive_all_snoc:
  "receive_all env (raws @ [raw]) st = ws_onmessage env raw (receive_all env raws st)"
  by (simp add: receive_all_def)

lemma file_tree_logs:
  assumes "\<forall>raw \<in> set raws. node_tree_frame env raw"
  shows "map log_content (terminalLogs (receive_all env raws st))
           = map log_content (terminalLogs st) @ map (tree_summary env) raws"
  using assms
proof (induction raws rule: rev_induct)
  case Nil
  then show ?case by (simp add: receive_all_def)
next
  case (snoc raw raws)
  then have f: "node_tree_frame env raw" by simp
  show ?case
    using snoc
    by (simp add: receive_all_snoc ws_onmessage_def file_tree_step[OF f] pushLog_def)
qed

text \<open>
  A node that is \<^verbatim>\<open>null\<close>: the tree is installed, then \<^verbatim>\<open>_countFiles\<close> throws on
  \<^verbatim>\<open>node.children\<close> and no summary line is logged.
\<close>

lemma null_node_no_summary:
  "file_tree_frame demo_env frame_tree_null_node
   \<and> throws (handleEvent demo_env frame_tree_null_node initial_state)
   \<and> fileTree (ws_onmessage demo_env frame_tree_null_node initial_state) = [JNull]
   \<and> terminalLogs (ws_onmessage demo_env frame_tree_null_node initial_state) = []"
  by (simp add: file_tree_frame_def demo_parse_tree_null_node ws_onmessage_def handleEvent_def
      dispatch_def nullish_def on_file_tree_def countFiles.simps initial_state_def)

text \<open>
  C5, as stated, at the frames \<^verbatim>\<open>{"type":"file_tree","tree":[{"name":"src", ...}]}\<close> and
  then \<^verbatim>\<open>{"type":"file_tree","tree":{"name":"root", ...}}\<close>: the second is a \<^verbatim>\<open>file_tree\<close>
  frame whose payload is an object, and after it the file tree is still the payload of
  the first frame, not that of the second, and the only summary line is the first
  frame's.
\<close>

theorem non_array_tree_ignored:
  "file_tree_frame demo_env frame_tree1 \<and> file_tree_frame demo_env frame_tree_root
   \<and> tree_value demo_env frame_tree_root
       = JObj [(''name'', JStr ''root''), (''children'', JArr [JObj [(''name'', JStr ''a.py'')]])]
   \<and> fileTree (receive_all demo_env [frame_tree1, frame_tree_root] initial_state)
       = [JObj [(''name'', JStr ''src''), (''children'', JArr [JObj [(''name'', JStr ''a.py'')]])]]
   \<and> JArr (fileTree (receive_all demo_env [frame_tree1, frame_tree_root] initial_state))
       \<noteq> tree_value demo_env frame_tree_root
   \<and> map log_content
        (terminalLogs (receive_all demo_env [frame_tree1, frame_tree_root] initial_state))
       = [JStr (glyph_folder @ '' File tree updated (2 items)'')]"
proof -
  have f: "file_tree_frame demo_env frame_tree1" "file_tree_frame demo_env frame_tree_root"
    by (simp_all add: file_tree_frame_def demo_parse_tree1 demo_parse_tree_root)
  have v: "tree_value demo_env frame_tree_root
       = JObj [(''name'', JStr ''root''), (''children'', JArr [JObj [(''name'', JStr ''a.py'')]])]"
    by (simp add: tree_value_def demo_parse_tree_root)
  have n: "node_tree_frame demo_env frame_tree1"
    by (simp add: node_tree_frame_def file_tree_frame_def tree_value_def tree_of_def
        demo_parse_tree1 nullish_def)
  have skip: "\<not> isArray (tree_value demo_env frame_tree_root)" by (simp add: v)
  have t: "tree_of demo_env frame_tree1
       = [JObj [(''name'', JStr ''src''), (''children'', JArr [JObj [(''name'', JStr ''a.py'')]])]]"
    "tree_summary demo_env frame_tree1 = JStr (glyph_folder @ '' File tree updated (2 items)'')"
    by (simp_all add: tree_of_def tree_value_def tree_summary_def demo_parse_tree1
        show_nat.simps)
  show ?thesis
    using f v t
    by (simp add: receive_all_def ws_onmessage_def file_tree_step[OF n]
        non_array_tree_step[OF f(2) skip] pushLog_def initial_state_def)
qed

text \<open>
  C5, amended. After any non-empty sequence of \<^verbatim>\<open>file_tree\<close> frames whose payloads are
  arrays of nodes, the file tree is the payload of the last frame, whatever the state
  and the earlier frames were, and the terminal log has grown by one summary line per
  frame, in order, each with the number of nodes of that frame's tree at every depth.
  A \<^verbatim>\<open>file_tree\<close> frame whose payload is not an array changes nothing, in any state.
\<close>

theorem file_tree_replaced:
  assumes "raws \<noteq> []" "\<forall>raw \<in> set raws. node_tree_frame env raw"
  shows "fileTree (receive_all env raws st) = tree_of env (last raws)
       \<and> map log_content (terminalLogs (receive_all env raws st))
           = map log_content (terminalLogs st) @ map (tree_summary env) raws
       \<and> (\<forall>other s. file_tree_frame env other \<and> \<not> isArray (tree_value env other)
             \<longrightarrow> handleEvent env other s = Returns s)"
proof -
  from assms(1) obtain front raw where r: "raws = front @ [raw]"
    by (cases raws rule: rev_cases) auto
  then have f: "node_tree_frame env raw" using assms(2) by simp
  have "fileTree (receive_all env raws st) = tree_of env (last raws)"
    by (simp add: r receive_all_snoc ws_onmessage_def file_tree_step[OF f] pushLog_def)
  then show ?thesis
    using file_tree_logs[OF assms(2)] non_array_tree_step by simp
qed

theorem file_tree_replaced_witness:
  "[frame_tree1, frame_tree2] \<noteq> []
   \<and> node_tree_frame demo_env frame_tree1 \<and> node_tree_frame demo_env frame_tree2
   \<and> fileTree (receive_all demo_env [frame_tree1, frame_tree2] initial_state)
       = [JObj [(''name'', JStr ''README.md'')]]
   \<and> map log_content (terminalLogs (receive_all demo_env [frame_tree1, frame_tree2] initial_state))
       = [JStr (glyph_folder @ '' File tree updated (2 items)''),
          JStr (glyph_folder @ '' File tree updated (1 items)'')]
   \<and> file_tree_frame demo_env frame_tree_root
   \<and> \<not> isArray (tree_value demo_env frame_tree_root)
   \<and> handleEvent demo_env frame_tree_root initial_state = Returns initial_state"
proof -
  have h: "\<forall>raw \<in> set [frame_tree1, frame_tree2]. node_tree_frame demo_env raw"
    by (simp add: node_tree_frame_def file_tree_frame_def tree_value_def tree_of_def
        demo_parse_tree1 demo_parse_tree2 nullish_def)
  have n: "[frame_tree1, frame_tree2] \<noteq> []" by simp
  have t: "tree_of demo_env frame_tree2 = [JObj [(''name'', JStr ''README.md'')]]"
    "tree_summary demo_env frame_tree1 = JStr (glyph_folder @ '' File tree updated (2 items)'')"
    "tree_summary demo_env frame_tree2 = JStr (glyph_folder @ '' File tree updated (1 items)'')"
    by (simp_all add: tree_of_def tree_value_def tree_summary_def demo_parse_tree1
        demo_parse_tree2 show_nat.simps)
  have o: "file_tree_frame demo_env frame_tree_root"
    "\<not> isArray (tree_value demo_env frame_tree_root)"
    by (simp_all add: file_tree_frame_def tree_value_def demo_parse_tree_root)
  show ?thesis
    using file_tree_replaced[OF n h, of initial_state] h t o
    by (simp add: initial_state_def)
qed

subsection \<open>The flat file list\<close>

lemma arr_includes_str: "arr_includes xs (JStr p) = (JStr p \<in> set xs)"
proof -
  have "same_value_zero x (JStr p) = (x = JStr p)" for x by (cases x) auto
  then show ?thesis by (simp add: arr_includes_def list_ex_iff)
qed

lemma single_path_step:
  assumes "single_path_frame env raw p" "p \<noteq> []"
  shows "handleEvent env raw st
           = Returns (pushLog (JStr (glyph_memo @ '' File changed: '' @ p))
                        (st\<lparr>files := (if JStr p \<in> set (files st) then files st
                                       else files st @ [JStr p])\<rparr>))"
proof -
  from assms(1) obtain msg where m: "JSON_parse env raw = Some msg"
    "js_get msg ''type'' = JStr ''file_change''" "\<not> isArray (js_get msg ''files'')"
    "js_get msg ''path'' = JStr p"
    by (auto simp: single_path_frame_def split: option.splits)
  have "dispatch env msg st = on_file_change msg st"
    using m(2) type_not_nullish[OF m(2)] by (simp add: dispatch_def)
  then show ?thesis
    using m assms(2)
    by (simp add: handleEvent_def on_file_change_def change_label_def arr_includes_str)
qed

text \<open>
  C6, as stated, at the frame \<^verbatim>\<open>{"type":"file_change","path":""}\<close> and the empty file
  list: the frame carries the path \<^verbatim>\<open>""\<close> and no list, the path is not in the list, and
  the list after the frame is not the list with the path appended.
\<close>

theorem empty_path_not_appended:
  "single_path_frame demo_env frame_change_empty []
   \<and> \<not> arr_includes (files initial_state) (JStr [])
   \<and> files (ws_onmessage demo_env frame_change_empty initial_state)
       \<noteq> files initial_state @ [JStr []]"
  by (simp add: single_path_frame_def demo_parse_change_empty ws_onmessage_def handleEvent_def
      dispatch_def nullish_def on_file_change_def change_label_def js_or_def pushLog_def
      initial_state_def arr_includes_def)

text \<open>
  C6, amended. For a \<^verbatim>\<open>file_change\<close> frame that carries a single non-empty path and no
  list of files, the dispatcher returns; the file list is unchanged when the path is in
  it, and otherwise is the old list followed by the path; a second dispatch of the same
  frame leaves the list as the first one made it; and the terminal log gets one line
  that names the path.
\<close>

theorem single_path_inserted_once:
  assumes "single_path_frame env raw p" "p \<noteq> []"
  shows "\<not> throws (handleEvent env raw st)
       \<and> files (ws_onmessage env raw st)
           = (if JStr p \<in> set (files st) then files st else files st @ [JStr p])
       \<and> files (ws_onmessage env raw (ws_onmessage env raw st)) = files (ws_onmessage env raw st)
       \<and> map log_content (terminalLogs (ws_onmessage env raw st))
           = map log_content (terminalLogs st) @ [JStr (glyph_memo @ '' File changed: '' @ p)]"
  by (simp add: ws_onmessage_def single_path_step[OF assms] pushLog_def)

theorem single_path_inserted_once_witness:
  "single_path_frame demo_env frame_change ''src/main.py'' \<and> ''src/main.py'' \<noteq> []
   \<and> files (ws_onmessage demo_env frame_change initial_state) = [JStr ''src/main.py'']
   \<and> files (ws_onmessage demo_env frame_change (ws_onmessage demo_env frame_change initial_state))
       = [JStr ''src/main.py'']"
proof -
  have h: "single_path_frame demo_env frame_change ''src/main.py''"
    by (simp add: single_path_frame_def demo_parse_change)
  have n: "''src/main.py'' \<noteq> []" by simp
  show ?thesis
    using single_path_inserted_once[OF h n, of initial_state] h
    by (simp add: initial_state_def)
qed

subsection \<open>Error frames\<close>

lemma str_includes_refl: "str_includes m m"
  by (cases m) simp_all

lemma str_includes_append: "str_includes (pre @ m) m"
  by (induction pre) (simp_all add: str_includes_refl)

lemma error_step:
  assumes "error_frame env raw m" "m \<noteq> []"
  shows "handleEvent env raw st
           = Returns (pushLog (JStr (glyph_cross @ '' '' @ m))
                        (pushMessage System (JStr (glyph_warning @ '' '' @ m))
                           (st\<lparr>error := JStr m, status := Errored\<rparr>)))"
proof -
  from assms(1) obtain msg where m: "JSON_parse env raw = Some msg"
    "js_get msg ''type'' = JStr ''error''" "js_get msg ''message'' = JStr m"
    by (auto simp: error_frame_def split: option.splits)
  have "dispatch env msg st = on_error msg st"
    using m(2) type_not_nullish[OF m(2)] by (simp add: dispatch_def)
  then show ?thesis
    using m assms(2)
    by (simp add: handleEvent_def on_error_def js_or_def)
qed

text \<open>
  C8, as stated, at the frame \<^verbatim>\<open>{"type":"error","message":""}\<close>: the frame is an error
  frame with the message \<^verbatim>\<open>""\<close>, and the error string recorded is \<^verbatim>\<open>Unknown error\<close>, not
  the message.
\<close>

theorem empty_error_message_replaced:
  "error_frame demo_env frame_error_empty []
   \<and> error (ws_onmessage demo_env frame_error_empty initial_state) = JStr ''Unknown error''
   \<and> error (ws_onmessage demo_env frame_error_empty initial_state) \<noteq> JStr []"
  by (simp add: error_frame_def demo_parse_error_empty ws_onmessage_def handleEvent_def
      dispatch_def nullish_def on_error_def js_or_def pushLog_def pushMessage_def
      initial_state_def)

text \<open>
  C8, amended. For an \<^verbatim>\<open>error\<close> frame with a non-empty message \<open>m\<close> the dispatcher
  returns; the status is \<^verbatim>\<open>error\<close>; the error string is \<open>m\<close>; the chat gets one system
  message and the terminal log one line, both of which contain \<open>m\<close>; and the sockets,
  the current socket, the heartbeat and the pending timers are as they were.
\<close>

theorem error_frame_surfaced:
  assumes "error_frame env raw m" "m \<noteq> []"
  shows "\<not> throws (handleEvent env raw st)
       \<and> status (ws_onmessage env raw st) = Errored
       \<and> error (ws_onmessage env raw st) = JStr m
       \<and> messages (ws_onmessage env raw st)
           = messages st @ [\<lparr>msg_id = idCounter st + 1, msg_type = System,
                              msg_content = JStr (glyph_warning @ '' '' @ m)\<rparr>]
       \<and> str_includes (glyph_warning @ '' '' @ m) m
       \<and> terminalLogs (ws_onmessage env raw st)
           = terminalLogs st @ [\<lparr>log_id = idCounter st + 2,
                                  log_content = JStr (glyph_cross @ '' '' @ m)\<rparr>]
       \<and> str_includes (glyph_cross @ '' '' @ m) m
       \<and> sockets (ws_onmessage env raw st) = sockets st
       \<and> wsRef (ws_onmessage env raw st) = wsRef st
       \<and> heartbeatRef (ws_onmessage env raw st) = heartbeatRef st
       \<and> timers (ws_onmessage env raw st) = timers st"
proof -
  have a: "str_includes (glyph_warning @ '' '' @ m) m"
    using str_includes_append[of "glyph_warning @ '' ''" m] by simp
  have b: "str_includes (glyph_cross @ '' '' @ m) m"
    using str_includes_append[of "glyph_cross @ '' ''" m] by simp
  show ?thesis
    using a b
    by (simp add: ws_onmessage_def error_step[OF assms] pushLog_def pushMessage_def)
qed

theorem error_frame_surfaced_witness:
  "error_frame demo_env frame_error ''OOM'' \<and> ''OOM'' \<noteq> []
   \<and> status (ws_onmessage demo_env frame_error initial_state) = Errored
   \<and> error (ws_onmessage demo_env frame_error initial_state) = JStr ''OOM''
   \<and> map msg_content (messages (ws_onmessage demo_env frame_error initial_state))
       = [JStr (glyph_warning @ '' OOM'')]"
proof -
  have h: "error_frame demo_env frame_error ''OOM''"
    by (simp add: error_frame_def demo_parse_error)
  have n: "''OOM'' \<noteq> []" by simp
  show ?thesis
    using error_frame_surfaced[OF h n, of initial_state] h
    by (simp add: initial_state_def)
qed

subsection \<open>An idle session has no socket\<close>

lemma pushLog_frame [simp]:
  "status (pushLog c st) = status st" "wsRef (pushLog c st) = wsRef st"
  "sockets (pushLog c st) = sockets st"
  by (simp_all add: pushLog_def)

lemma pushMessage_frame [simp]:
  "status (pushMessage k c st) = status st" "wsRef (pushMessage k c st) = wsRef st"
  "sockets (pushMessage k c st) = sockets st"
  by (simp_all add: pushMessage_def)

lemma keeps_refl [simp]: "keeps st st"
  by (simp add: keeps_def)

lemma keeps_pushLog [simp]: "keeps st (pushLog c st') = keeps st st'"
  by (simp add: keeps_def)

lemma keeps_pushMessage [simp]: "keeps st (pushMessage k c st') = keeps st st'"
  by (simp add: keeps_def)

lemma on_log_keeps: "keeps st (state_of (on_log env msg st))"
  by (simp add: on_log_def Let_def)

lemma on_message_keeps: "keeps st (state_of (on_message msg st))"
  by (simp add: on_message_def)

lemma on_file_tree_keeps: "keeps st (state_of (on_file_tree msg st))"
  by (simp add: on_file_tree_def Let_def keeps_def split: option.splits)

lemma on_file_change_keeps: "keeps st (state_of (on_file_change msg st))"
  by (simp add: on_file_change_def Let_def keeps_def split: option.splits)

lemma on_agent_event_keeps: "keeps st (state_of (on_agent_event msg st))"
  by (simp add: on_agent_event_def Let_def keeps_def split: option.splits)

lemma on_status_keeps: "keeps st (state_of (on_status msg st))"
  by (simp add: on_status_def Let_def keeps_def split: option.splits)

lemma on_complete_keeps: "keeps st (state_of (on_complete st))"
  by (simp add: on_complete_def)

lemma on_error_keeps: "keeps st (state_of (on_error msg st))"
  by (simp add: on_error_def Let_def keeps_def split: option.splits)

lemma dispatch_keeps: "keeps st (state_of (dispatch env msg st))"
  by (simp add: dispatch_def Let_def on_log_keeps on_message_keeps on_file_tree_keeps
      on_file_change_keeps on_agent_event_keeps on_status_keeps on_complete_keeps
      on_error_keeps)

lemma handleEvent_keeps: "keeps st (state_of (handleEvent env raw st))"
  by (simp add: handleEvent_def dispatch_keeps split: option.splits)

lemma connect_inv: "socket_inv st \<Longrightarrow> socket_inv (connect env task st)"
  by (auto simp: socket_inv_def connect_def Let_def split: option.splits)

lemma ws_send_frame [simp]:
  "status (ws_send i f st) = status st" "wsRef (ws_send i f st) = wsRef st"
  "length (sockets (ws_send i f st)) = length (sockets st)"
  by (simp_all add: ws_send_def)

lemma set_ready_frame [simp]:
  "status (set_ready i r st) = status st" "wsRef (set_ready i r st) = wsRef st"
  "length (sockets (set_ready i r st)) = length (sockets st)"
  by (simp_all add: set_ready_def)

lemma stopHeartbeat_frame [simp]:
  "status (stopHeartbeat st) = status st" "wsRef (stopHeartbeat st) = wsRef st"
  "sockets (stopHeartbeat st) = sockets st"
  by (simp_all add: stopHeartbeat_def)

lemma fetch_failed_frame [simp]:
  "status (fetch_failed p m st) = status st" "wsRef (fetch_failed p m st) = wsRef st"
  "sockets (fetch_failed p m st) = sockets st"
  by (simp_all add: fetch_failed_def Let_def)

lemma step_inv: "socket_inv st \<Longrightarrow> socket_inv (step env ev st)"
proof (cases ev)
  case (StartSession task)
  assume i: "socket_inv st"
  have "socket_inv (pushMessage User c st)" for c
    using i by (simp add: socket_inv_def)
  moreover have "socket_inv (sendMessageInternal env t st)" for t
    using i by (simp add: socket_inv_def sendMessageInternal_def)
  ultimately show ?thesis
    using i StartSession by (auto simp: startSession_def connect_inv split: option.splits)
next
  case (SendMessage utterance)
  assume i: "socket_inv st"
  have "socket_inv (pushMessage User c st)" for c
    using i by (simp add: socket_inv_def)
  moreover have "socket_inv (sendMessageInternal env t st)" for t
    using i by (simp add: socket_inv_def sendMessageInternal_def)
  ultimately show ?thesis
    using i SendMessage
    by (auto simp: sendMessage_def startSession_def connect_inv split: option.splits)
next
  case StopSession
  then show ?thesis
    by (simp add: socket_inv_def stopSession_def Let_def split: option.splits)
next
  case Unmount
  then show ?thesis
    by (simp add: socket_inv_def unmount_def Let_def split: option.splits)
next
  case (SelectFile path)
  assume "socket_inv st"
  then show ?thesis
    using SelectFile by (auto simp: socket_inv_def selectFile_def Let_def split: option.splits)
next
  case (FileResponse path r)
  assume "socket_inv st"
  then show ?thesis
    using FileResponse
    by (auto simp: socket_inv_def selectFile_response_def Let_def
        split: option.splits fetch_result.splits sum.splits)
next
  case (SocketOpen i)
  assume "socket_inv st"
  then show ?thesis
    using SocketOpen
    by (auto simp: socket_inv_def ws_onopen_def Let_def startHeartbeat_def split: option.splits)
next
  case (SocketMessage raw)
  assume "socket_inv st"
  then show ?thesis
    using SocketMessage handleEvent_keeps[of st env raw]
    by (auto simp: socket_inv_def ws_onmessage_def keeps_def)
next
  case SocketError
  assume "socket_inv st"
  then show ?thesis using SocketError by (simp add: socket_inv_def ws_onerror_def)
next
  case (SocketClose i code reason)
  assume "socket_inv st"
  then show ?thesis
    using SocketClose by (auto simp: socket_inv_def ws_onclose_def Let_def)
next
  case (TimerFire k)
  assume i: "socket_inv st"
  have "socket_inv (st\<lparr>timers := ts\<rparr>)" for ts using i by (simp add: socket_inv_def)
  then show ?thesis using i TimerFire by (simp add: timer_fire_def connect_inv)
next
  case HeartbeatTick
  assume "socket_inv st"
  then show ?thesis using HeartbeatTick by (auto simp: socket_inv_def heartbeat_tick_def)
qed

lemma reachable_inv: "reachable env st \<Longrightarrow> socket_inv st"
  by (induction rule: reachable.induct)
     (simp_all add: step_inv, simp add: socket_inv_def initial_state_def)

lemma idle_has_no_socket: "reachable env st \<Longrightarrow> status st = Idle \<Longrightarrow> wsRef st = None"
  using reachable_inv by (auto simp: socket_inv_def)

subsection \<open>Starting a session\<close>

lemma onopen_sends:
  assumes "i < length (sockets st)" "readyState (sockets st ! i) = CONNECTING"
  shows "sent (sockets (ws_onopen env i st) ! i)
           = sent (sockets st ! i)
             @ [JSON_stringify env (handshake env (initialTask (sockets st ! i)))]"
  using assms
  by (auto simp: ws_onopen_def Let_def ws_send_def set_ready_def startHeartbeat_def
        stopHeartbeat_def pushLog_def split: option.splits)

lemma onopen_keeps_chat:
  "messages (ws_onopen env i st) = messages st"
  by (auto simp: ws_onopen_def Let_def ws_send_def set_ready_def startHeartbeat_def
        stopHeartbeat_def pushLog_def split: option.splits)

lemma ready_step:
  assumes "ready_frame env raw"
  shows "handleEvent env raw st
           = Returns (pushMessage System (JStr ''Agent is ready.'')
                        ((pushLog (JStr ''[ready] '') st)\<lparr>sessionIdRef := JStr ''s1'',
                                                            status := Connected\<rparr>))"
proof -
  from assms obtain msg where m: "JSON_parse env raw = Some msg"
    "js_get msg ''type'' = JStr ''status''" "js_get msg ''status'' = JStr ''ready''"
    "js_get msg ''sessionId'' = JStr ''s1''" "js_get msg ''message'' = JUndefined"
    by (auto simp: ready_frame_def split: option.splits)
  have "dispatch env msg st = on_status msg st"
    using m(2) type_not_nullish[OF m(2)] by (simp add: dispatch_def)
  then show ?thesis
    using m by (simp add: handleEvent_def on_status_def js_or_def Let_def)
qed

lemma startSession_idle:
  assumes "wsRef st = None" "task \<noteq> []"
  shows "startSession env (Some task) st
           = connect env (Some task) (pushMessage User (JStr task) st)"
  using assms by (simp add: startSession_def current_ready_def)

text \<open>
  C7. In an idle session, in any state the hook can reach, \<^verbatim>\<open>startSession(task)\<close> with
  a non-empty task makes the status \<^verbatim>\<open>connecting\<close> and creates one socket, on which
  nothing is sent before it opens; when it opens, the status is \<^verbatim>\<open>connected\<close> and exactly
  one frame has been sent on it, the serialised handshake, whose \<^verbatim>\<open>task\<close> is the given
  task. When the frame \<^verbatim>\<open>{type:"status", status:"ready", sessionId:"s1"}\<close> is then
  dispatched, the status is \<^verbatim>\<open>connected\<close>, the chat has grown by one system message,
  the session id is \<^verbatim>\<open>s1\<close>, and a file read started afterwards asks for the file with
  \<^verbatim>\<open>session_id=s1\<close>. The frame does this by itself: dispatched in any state at all,
  whatever the status was, it returns, makes the status \<^verbatim>\<open>connected\<close>, sets the session
  id to \<^verbatim>\<open>s1\<close> and appends exactly one system message to the chat.
\<close>

theorem start_then_ready:
  assumes "reachable env st" "status st = Idle" "task \<noteq> []" "ready_frame env raw" "p \<noteq> []"
  shows "wsRef (startSession env (Some task) st) = Some (length (sockets st))
       \<and> length (sockets (startSession env (Some task) st)) = length (sockets st) + 1
       \<and> sent (sockets (startSession env (Some task) st) ! length (sockets st)) = []
       \<and> sent (sockets (ws_onopen env (length (sockets st)) (startSession env (Some task) st))
                 ! length (sockets st))
           = [JSON_stringify env (handshake env (Some task))]
       \<and> js_get (handshake env (Some task)) ''task'' = JStr task
       \<and> status (ws_onmessage env raw
                   (ws_onopen env (length (sockets st)) (startSession env (Some task) st)))
           = Connected
       \<and> map (\<lambda>m. (msg_type m, msg_content m))
            (messages (ws_onmessage env raw
                        (ws_onopen env (length (sockets st)) (startSession env (Some task) st))))
           = map (\<lambda>m. (msg_type m, msg_content m)) (messages st)
             @ [(User, JStr task), (System, JStr ''Agent is ready.'')]
       \<and> sessionIdRef (ws_onmessage env raw
                        (ws_onopen env (length (sockets st)) (startSession env (Some task) st)))
           = JStr ''s1''
       \<and> snd (selectFile env p
                (ws_onmessage env raw
                   (ws_onopen env (length (sockets st)) (startSession env (Some task) st))))
           = Some \<lparr>req_session_id = ''s1'', req_path = p\<rparr>
       \<and> status (startSession env (Some task) st) = Connecting
       \<and> status (ws_onopen env (length (sockets st)) (startSession env (Some task) st))
           = Connected
       \<and> (\<forall>s. \<not> throws (handleEvent env raw s)
                \<and> status (ws_onmessage env raw s) = Connected
                \<and> sessionIdRef (ws_onmessage env raw s) = JStr ''s1''
                \<and> messages (ws_onmessage env raw s)
                    = messages s @ [\<lparr>msg_id = idCounter s + 2, msg_type = System,
                                      msg_content = JStr ''Agent is ready.''\<rparr>])"
proof -
  let ?n = "length (sockets st)"
  let ?u = "pushMessage User (JStr task) st"
  let ?s1 = "startSession env (Some task) st"
  have w: "wsRef st = None" using idle_has_no_socket[OF assms(1,2)] .
  have u: "wsRef ?u = None" "sockets ?u = sockets st"
    "messages ?u = messages st @ [\<lparr>msg_id = idCounter st + 1, msg_type = User,
                                    msg_content = JStr task\<rparr>]"
    using w by (simp_all add: pushMessage_def)
  have s1: "?s1 = connect env (Some task) ?u"
    using startSession_idle[OF w assms(3)] by simp
  have c: "wsRef ?s1 = Some ?n" "?n < length (sockets ?s1)"
    "readyState (sockets ?s1 ! ?n) = CONNECTING" "sent (sockets ?s1 ! ?n) = []"
    "initialTask (sockets ?s1 ! ?n) = Some task" "length (sockets ?s1) = ?n + 1"
    using u by (simp_all add: s1 connect_fresh[OF u(1)])
  have m: "messages ?s1 = messages ?u"
    by (simp add: s1 connect_def current_ready_def u(1) Let_def pushLog_def)
  have o: "sent (sockets (ws_onopen env ?n ?s1) ! ?n)
             = [JSON_stringify env (handshake env (Some task))]"
    using onopen_sends[OF c(2) c(3), of env] c(4) c(5) by simp
  have h: "js_get (handshake env (Some task)) ''task'' = JStr task"
    by (simp add: handshake_def)
  have g: "status ?s1 = Connecting"
    by (simp add: s1 connect_fresh[OF u(1)])
  have k: "status (ws_onopen env ?n ?s1) = Connected"
    using c(2,3)
    by (auto simp: ws_onopen_def Let_def ws_send_def set_ready_def startHeartbeat_def
          stopHeartbeat_def pushLog_def split: option.splits)
  have any: "\<not> throws (handleEvent env raw s)
             \<and> status (ws_onmessage env raw s) = Connected
             \<and> sessionIdRef (ws_onmessage env raw s) = JStr ''s1''
             \<and> messages (ws_onmessage env raw s)
                 = messages s @ [\<lparr>msg_id = idCounter s + 2, msg_type = System,
                                   msg_content = JStr ''Agent is ready.''\<rparr>]" for s
    by (simp add: ws_onmessage_def ready_step[OF assms(4)] pushMessage_def pushLog_def)
  have scenario: "status (ws_onmessage env raw (ws_onopen env ?n ?s1)) = Connected
      \<and> map (\<lambda>m. (msg_type m, msg_content m))
            (messages (ws_onmessage env raw (ws_onopen env ?n ?s1)))
           = map (\<lambda>m. (msg_type m, msg_content m)) (messages st)
             @ [(User, JStr task), (System, JStr ''Agent is ready.'')]
      \<and> sessionIdRef (ws_onmessage env raw (ws_onopen env ?n ?s1)) = JStr ''s1''
      \<and> snd (selectFile env p (ws_onmessage env raw (ws_onopen env ?n ?s1)))
           = Some \<lparr>req_session_id = ''s1'', req_path = p\<rparr>"
    using assms(5) m u(3)
    by (simp add: ws_onmessage_def ready_step[OF assms(4)] pushMessage_def pushLog_def
        selectFile_def js_or_def onopen_keeps_chat)
  show ?thesis
    using c(1) c(4) c(6) o h g k any scenario by simp
qed

theorem start_then_ready_witness:
  "reachable demo_env initial_state \<and> status initial_state = Idle \<and> ''fix the bug'' \<noteq> []
   \<and> ready_frame demo_env frame_ready \<and> ''a.txt'' \<noteq> []
   \<and> sent (sockets (ws_onopen demo_env 0
                      (startSession demo_env (Some ''fix the bug'') initial_state)) ! 0)
       = [demo_stringify (handshake demo_env (Some ''fix the bug''))]
   \<and> status (ws_onmessage demo_env frame_ready
               (ws_onopen demo_env 0 (startSession demo_env (Some ''fix the bug'') initial_state)))
       = Connected
   \<and> sessionIdRef (ws_onmessage demo_env frame_ready
               (ws_onopen demo_env 0 (startSession demo_env (Some ''fix the bug'') initial_state)))
       = JStr ''s1''
   \<and> snd (selectFile demo_env ''a.txt''
            (ws_onmessage demo_env frame_ready
               (ws_onopen demo_env 0 (startSession demo_env (Some ''fix the bug'') initial_state))))
       = Some \<lparr>req_session_id = ''s1'', req_path = ''a.txt''\<rparr>
   \<and> status (startSession demo_env (Some ''fix the bug'') initial_state) = Connecting
   \<and> status (ws_onmessage demo_env frame_ready
               (startSession demo_env (Some ''fix the bug'') initial_state)) = Connected
   \<and> status (ws_onmessage demo_env frame_ready initial_state) = Connected
   \<and> messages (ws_onmessage demo_env frame_ready initial_state)
       = [\<lparr>msg_id = 2, msg_type = System, msg_content = JStr ''Agent is ready.''\<rparr>]"
proof -
  have h: "status initial_state = Idle" "sockets initial_state = []"
    "messages initial_state = []" "idCounter initial_state = 0"
    by (simp_all add: initial_state_def)
  have i: "reachable demo_env initial_state" by (rule reachable_initial)
  have t: "''fix the bug'' \<noteq> []" "''a.txt'' \<noteq> []" by simp_all
  have r: "ready_frame demo_env frame_ready"
    by (simp add: ready_frame_def demo_parse_ready)
  have e: "JSON_stringify demo_env = demo_stringify" by (simp add: demo_env_def)
  show ?thesis
    using start_then_ready[OF i h(1) t(1) r t(2)] h i r e
    by simp
qed

subsection \<open>A stale file response\<close>

text \<open>The \<^verbatim>\<open>catch\<close> block leaves the entry of another path alone.\<close>

lemma fetch_failed_stale:
  assumes "activeFile st = Some af" "af_path af \<noteq> path"
  shows "activeFile (fetch_failed path m st) = activeFile st"
  using assms by (simp add: fetch_failed_def pushLog_def Let_def)

text \<open>
  C1. \<^verbatim>\<open>selectFile("a.txt")\<close>, then \<^verbatim>\<open>selectFile("b.txt")\<close>: the active file is the entry
  of \<^verbatim>\<open>b.txt\<close>, loading. Then the successful response for \<^verbatim>\<open>a.txt\<close> arrives: the active
  file is the entry of \<^verbatim>\<open>a.txt\<close> with its content. The success path stores the response
  without looking at the path that is active.
\<close>

theorem stale_success_overwrites:
  "activeFile (fst (selectFile demo_env ''b.txt'' (fst (selectFile demo_env ''a.txt'' initial_state))))
     = Some \<lparr>af_path = ''b.txt'', af_content = JStr [], af_loading = True\<rparr>
   \<and> activeFile (selectFile_response demo_env ''a.txt'' (ok_response ''text of a'')
        (fst (selectFile demo_env ''b.txt'' (fst (selectFile demo_env ''a.txt'' initial_state)))))
     = Some \<lparr>af_path = ''a.txt'', af_content = JStr ''text of a'', af_loading = False\<rparr>"
  by (simp add: selectFile_def selectFile_response_def ok_response_def res_ok_def nullish_def
      js_or_def initial_state_def)

subsection \<open>Frames on which the dispatcher fails\<close>

text \<open>
  C2. The frame \<^verbatim>\<open>null\<close> parses to \<^verbatim>\<open>null\<close>, and the dispatcher throws on it. The frame
  \<^verbatim>\<open>{"type":"observation","event":"agent_message","message":"hi"}\<close> has no \<^verbatim>\<open>content\<close>,
  and the chat message appended for it has the content \<^verbatim>\<open>undefined\<close>.
\<close>

theorem dispatcher_throws_and_undefined:
  "JSON_parse demo_env frame_null = Some JNull
   \<and> throws (handleEvent demo_env frame_null initial_state)
   \<and> JSON_parse demo_env frame_observation
       = Some (JObj [(''type'', JStr ''observation''), (''event'', JStr ''agent_message''),
                     (''message'', JStr ''hi'')])
   \<and> map msg_content (messages (state_of (handleEvent demo_env frame_observation initial_state)))
       = [JUndefined]"
  by (simp add: demo_parse_null demo_parse_observation handleEvent_def dispatch_def
      nullish_def on_log_def js_or_def pushLog_def pushMessage_def initial_state_def Let_def)

subsection \<open>Stopping while a reconnect is pending\<close>

lemma connect_guarded:
  assumes "current_ready st = Some OPEN \<or> current_ready st = Some CONNECTING"
  shows "connect env task st = st"
  using assms by (auto simp: connect_def)

lemma current_ready_timers: "current_ready (st\<lparr>timers := ts\<rparr>) = current_ready st"
  by (simp add: current_ready_def split: option.splits)

lemma connect_unguarded:
  assumes "\<not> (current_ready st = Some OPEN \<or> current_ready st = Some CONNECTING)"
  shows "status (connect env task st) = Connecting"
    and "length (sockets (connect env task st)) = length (sockets st) + 1"
    and "wsRef (connect env task st) = Some (length (sockets st))"
  using assms by (simp_all add: connect_def Let_def pushLog_def)

lemma stopSession_effect:
  shows "status (stopSession st) = Idle" and "wsRef (stopSession st) = None"
    and "timers (stopSession st) = timers st"
    and "length (sockets (stopSession st)) = length (sockets st)"
  by (simp_all add: stopSession_def Let_def pushLog_def stopHeartbeat_def ws_close_def
      set_ready_def split: option.splits)

lemma timer_after_stop:
  assumes "k < length (timers st)"
  shows "status (timer_fire env k (stopSession st)) = Connecting"
    and "wsRef (timer_fire env k (stopSession st)) = Some (length (sockets st))"
    and "length (sockets (timer_fire env k (stopSession st))) = length (sockets st) + 1"
    and "readyState (sockets (timer_fire env k (stopSession st)) ! length (sockets st))
           = CONNECTING"
proof -
  let ?t = "(stopSession st)\<lparr>timers := take k (timers st) @ drop (Suc k) (timers st)\<rparr>"
  have tf: "timer_fire env k (stopSession st) = connect env (snd (timers st ! k)) ?t"
    using assms by (simp add: timer_fire_def stopSession_effect)
  have w: "wsRef ?t = None" by (simp add: stopSession_effect)
  show "status (timer_fire env k (stopSession st)) = Connecting"
    and "wsRef (timer_fire env k (stopSession st)) = Some (length (sockets st))"
    and "length (sockets (timer_fire env k (stopSession st))) = length (sockets st) + 1"
    and "readyState (sockets (timer_fire env k (stopSession st)) ! length (sockets st))
           = CONNECTING"
    by (simp_all add: tf connect_fresh[OF w] stopSession_effect nth_append)
qed

lemma demo_first_failure:
  "retrying (Some ''fix the bug'') 0 1
     (open_fails demo_env 1006 [] (startSession demo_env (Some ''fix the bug'') initial_state))"
proof -
  have h: "wsRef initial_state = None" "reconnectCount initial_state = 0"
    "timers initial_state = []" "sockets initial_state = []"
    by (simp_all add: initial_state_def)
  have c: "\<not> normal_close 1006" by (simp add: normal_close_def)
  obtain st' where st': "startSession demo_env (Some ''fix the bug'') initial_state
      = connect demo_env (Some ''fix the bug'') st'"
    "wsRef st' = None" "reconnectCount st' = 0" "timers st' = []" "sockets st' = []"
    using startSession_fresh[OF h(1), of demo_env "Some ''fix the bug''"] h by auto
  show ?thesis
    using first_failure[OF st'(2,3,4) c, of "Some ''fix the bug''" demo_env "[]"] st'(1,5)
    by simp
qed

text \<open>
  C3. A session is started, its socket closes with code 1006 and a reconnect is
  scheduled; \<^verbatim>\<open>stopSession()\<close> leaves the status \<^verbatim>\<open>idle\<close>, with one socket created so far
  and the timer still pending; then the timer fires, and the status is \<^verbatim>\<open>connecting\<close>
  with a second socket created. The stop has not cancelled the reconnect, and the
  callback has not abandoned itself.
\<close>

theorem stopped_session_revived:
  "status (stopSession (open_fails demo_env 1006 []
             (startSession demo_env (Some ''fix the bug'') initial_state))) = Idle
   \<and> length (sockets (stopSession (open_fails demo_env 1006 []
                (startSession demo_env (Some ''fix the bug'') initial_state)))) = 1
   \<and> timers (stopSession (open_fails demo_env 1006 []
                (startSession demo_env (Some ''fix the bug'') initial_state)))
       = [(2000, Some ''fix the bug'')]
   \<and> status (timer_fire demo_env 0
        (stopSession (open_fails demo_env 1006 []
           (startSession demo_env (Some ''fix the bug'') initial_state)))) = Connecting
   \<and> length (sockets (timer_fire demo_env 0
        (stopSession (open_fails demo_env 1006 []
           (startSession demo_env (Some ''fix the bug'') initial_state))))) = 2"
proof -
  let ?s = "open_fails demo_env 1006 [] (startSession demo_env (Some ''fix the bug'') initial_state)"
  have r: "timers ?s = [(2000, Some ''fix the bug'')]" "length (sockets ?s) = 1"
    using demo_first_failure by (simp_all add: retrying_def)
  have k: "0 < length (timers ?s)" using r(1) by simp
  show ?thesis
    using timer_after_stop[OF k, of demo_env] r
    by (simp add: stopSession_effect)
qed

text \<open>
  In general: \<^verbatim>\<open>stopSession()\<close> makes the status \<^verbatim>\<open>idle\<close> and clears the current socket
  but keeps the pending timers, and a timer that fires after it creates a socket. In any
  state, the callback of a timer does nothing exactly when, at the moment it fires, the
  current socket is open or connecting (the state is then as before, less the timer);
  otherwise it creates a socket and the status is \<^verbatim>\<open>connecting\<close>.
\<close>

lemma stop_does_not_cancel_reconnect:
  assumes "k < length (timers st)" and "j < length (timers s)"
  shows "status (stopSession st) = Idle \<and> wsRef (stopSession st) = None
       \<and> timers (stopSession st) = timers st
       \<and> status (timer_fire env k (stopSession st)) = Connecting
       \<and> wsRef (timer_fire env k (stopSession st)) = Some (length (sockets st))
       \<and> length (sockets (timer_fire env k (stopSession st))) = length (sockets st) + 1
       \<and> readyState (sockets (timer_fire env k (stopSession st)) ! length (sockets st))
           = CONNECTING
       \<and> (if current_ready s = Some OPEN \<or> current_ready s = Some CONNECTING
           then timer_fire env j s
                  = s\<lparr>timers := take j (timers s) @ drop (Suc j) (timers s)\<rparr>
           else status (timer_fire env j s) = Connecting
                \<and> length (sockets (timer_fire env j s)) = length (sockets s) + 1)"
proof -
  let ?t = "s\<lparr>timers := take j (timers s) @ drop (Suc j) (timers s)\<rparr>"
  have tf: "timer_fire env j s = connect env (snd (timers s ! j)) ?t"
    using assms(2) by (simp add: timer_fire_def)
  have live: "timer_fire env j s = ?t"
    if "current_ready s = Some OPEN \<or> current_ready s = Some CONNECTING"
    using that by (simp add: tf connect_guarded current_ready_timers)
  have dead: "status (timer_fire env j s) = Connecting
              \<and> length (sockets (timer_fire env j s)) = length (sockets s) + 1"
    if "\<not> (current_ready s = Some OPEN \<or> current_ready s = Some CONNECTING)"
  proof -
    from that have "\<not> (current_ready ?t = Some OPEN \<or> current_ready ?t = Some CONNECTING)"
      by (simp add: current_ready_timers)
    from connect_unguarded[OF this, of env "snd (timers s ! j)"] show ?thesis
      by (simp add: tf)
  qed
  show ?thesis
    using live dead
    by (simp add: stopSession_effect timer_after_stop[OF assms(1)])
qed


end
